theory Spec2Isabelle
  imports Main
begin

section \<open>Breakwind: the surf protocol handlers (app/src/main/surfProtocolHandlers.ts)\<close>

text \<open>
  A shallow embedding of the resource locator, the image cache and the image-processing
  worker bookkeeping of \<^verbatim>\<open>surfProtocolHandlers.ts\<close>. Module-level variables
  (\<^verbatim>\<open>imageProcessorHandles\<close>, \<^verbatim>\<open>imageProcessor\<close>,
  \<^verbatim>\<open>imageProcessorDeinitTimeout\<close>) are fields of a state record that every
  function takes and returns. Strings are \<open>string\<close>; a thrown exception is the left
  summand of a result.
\<close>

subsection \<open>JavaScript values used by the handlers\<close>

text \<open>
  A JavaScript number as \<^verbatim>\<open>Number.parseInt\<close> returns it: \<open>NaN\<close> or an integer.
  Integers are kept exact; beyond \<open>2^53\<close> JavaScript rounds, and from \<open>10^21\<close> on it
  prints in exponent form: such values are outside the range where \<open>number_toString\<close>
  agrees with the platform.
\<close>

datatype number = NaN | Num int

function nat_digits :: "nat \<Rightarrow> string" where
  "nat_digits n =
     (if n < 10 then [char_of (48 + n)]
      else nat_digits (n div 10) @ [char_of (48 + n mod 10)])"
  by pat_completeness auto
termination
  by (relation "measure id") auto

declare nat_digits.simps [simp del]

text \<open>What a template literal prints for a number.\<close>

fun number_toString :: "number \<Rightarrow> string" where
  "number_toString NaN = ''NaN''"
| "number_toString (Num i) =
     (if i < 0 then CHR ''-'' # nat_digits (nat (- i)) else nat_digits (nat i))"

text \<open>
  \<^verbatim>\<open>Number.parseInt(s)\<close> with no radix: leading white space is skipped (the ASCII
  white space characters, here), then an optional sign, then an optional \<^verbatim>\<open>0x\<close>
  prefix selecting radix 16, then the longest run of digits of the radix; no digit gives
  \<open>NaN\<close>.
\<close>

definition isWhiteSpace :: "char \<Rightarrow> bool" where
  "isWhiteSpace c = (of_char c \<in> {9, 10, 11, 12, 13, 32 :: nat})"

definition digit_value :: "char \<Rightarrow> nat option" where
  "digit_value c =
     (let n = (of_char c :: nat) in
      if 48 \<le> n \<and> n \<le> 57 then Some (n - 48)
      else if 97 \<le> n \<and> n \<le> 122 then Some (n - 87)
      else if 65 \<le> n \<and> n \<le> 90 then Some (n - 55)
      else None)"

definition is_digit :: "nat \<Rightarrow> char \<Rightarrow> bool" where
  "is_digit radix c = (case digit_value c of None \<Rightarrow> False | Some d \<Rightarrow> d < radix)"

definition digits_value :: "nat \<Rightarrow> string \<Rightarrow> nat" where
  "digits_value radix ds =
     foldl (\<lambda>acc c. acc * radix + (case digit_value c of None \<Rightarrow> 0 | Some d \<Rightarrow> d)) 0 ds"

definition parseInt :: "string \<Rightarrow> number" where
  "parseInt str =
     (let t = dropWhile isWhiteSpace str;
          neg = (take 1 t = ''-'');
          t1 = (if take 1 t = ''-'' \<or> take 1 t = ''+'' then drop 1 t else t);
          hex = (take 2 t1 = ''0x'' \<or> take 2 t1 = ''0X'');
          radix = (if hex then 16 else 10);
          t2 = (if hex then drop 2 t1 else t1);
          ds = takeWhile (is_digit radix) t2
      in if ds = [] then NaN
         else Num (if neg then - int (digits_value radix ds) else int (digits_value radix ds)))"

subsection \<open>URLs and their search parameters\<close>

text \<open>
  \<^verbatim>\<open>new URL(u).searchParams\<close> for a serialized URL \<open>u\<close> (what a request's
  \<^verbatim>\<open>url\<close> is): the query is what stands between the first \<^verbatim>\<open>?\<close> and the
  fragment; it is split at \<^verbatim>\<open>&\<close>, each non-empty piece at its first \<^verbatim>\<open>=\<close>;
  \<^verbatim>\<open>+\<close> stands for a space and \<^verbatim>\<open>%hh\<close> for a byte. Strings are byte strings
  here: the replacement of byte sequences that are not UTF-8 is not modelled.
\<close>

fun split_on :: "char \<Rightarrow> string \<Rightarrow> string list" where
  "split_on d [] = [[]]"
| "split_on d (c # cs) =
     (if c = d then [] # split_on d cs
      else (case split_on d cs of [] \<Rightarrow> [[c]] | p # ps \<Rightarrow> (c # p) # ps))"

fun percent_decode :: "string \<Rightarrow> string" where
  "percent_decode (c # h # l # cs) =
     (if c = CHR ''%'' \<and> is_digit 16 h \<and> is_digit 16 l
      then char_of (digits_value 16 [h, l]) # percent_decode cs
      else c # percent_decode (h # l # cs))"
| "percent_decode cs = cs"

definition url_query :: "string \<Rightarrow> string" where
  "url_query u =
     drop 1 (dropWhile (\<lambda>c. c \<noteq> CHR ''?'') (takeWhile (\<lambda>c. c \<noteq> CHR ''#'') u))"

definition urlencoded_pair :: "string \<Rightarrow> string \<times> string" where
  "urlencoded_pair piece =
     (let name = takeWhile (\<lambda>c. c \<noteq> CHR ''='') piece;
          val = drop 1 (dropWhile (\<lambda>c. c \<noteq> CHR ''='') piece);
          plus = map (\<lambda>c. if c = CHR ''+'' then CHR '' '' else c)
      in (percent_decode (plus name), percent_decode (plus val)))"

definition searchParams :: "string \<Rightarrow> (string \<times> string) list" where
  "searchParams u = map urlencoded_pair (filter (\<lambda>p. p \<noteq> []) (split_on CHR ''&'' (url_query u)))"

definition searchParams_has :: "(string \<times> string) list \<Rightarrow> string \<Rightarrow> bool" where
  "searchParams_has ps name = (map_of ps name \<noteq> None)"

definition searchParams_get :: "(string \<times> string) list \<Rightarrow> string \<Rightarrow> string option" where
  "searchParams_get ps name = map_of ps name"

subsection \<open>Responses\<close>

record response =
  status :: nat
  body :: string
  headers :: "(string \<times> string) list"

text \<open>\<^verbatim>\<open>new Response(text, { status })\<close>: a string body sets the content type.\<close>

definition text_response :: "string \<Rightarrow> nat \<Rightarrow> response" where
  "text_response txt st =
     \<lparr>status = st, body = txt, headers = [(''content-type'', ''text/plain;charset=UTF-8'')]\<rparr>"

text \<open>\<^verbatim>\<open>new Response(buffer)\<close>: status 200, no header.\<close>

definition buffer_response :: "string \<Rightarrow> response" where
  "buffer_response buf = \<lparr>status = 200, body = buf, headers = []\<rparr>"

subsection \<open>Image options and the cache path\<close>

record ImageProcessingOptions =
  quality :: "number option"
  maxDimension :: "number option"

definition extractImageOptions :: "string \<Rightarrow> ImageProcessingOptions" where
  "extractImageOptions url =
     \<lparr>quality =
        (if searchParams_has (searchParams url) ''quality''
         then Some (parseInt (case searchParams_get (searchParams url) ''quality'' of
                                None \<Rightarrow> ''100'' | Some v \<Rightarrow> v))
         else None),
      maxDimension =
        (if searchParams_has (searchParams url) ''maxDimension''
         then Some (parseInt (case searchParams_get (searchParams url) ''maxDimension'' of
                                None \<Rightarrow> ''undefined'' | Some v \<Rightarrow> v))
         else None)\<rparr>"

text \<open>
  \<^verbatim>\<open>generateCachedPath(resourceId, baseCacheDir, { quality, maxDimension })\<close>.
  \<open>join\<close> is the platform's \<^verbatim>\<open>path.join\<close>.
\<close>

definition generateCachedPath ::
  "(string \<Rightarrow> string \<Rightarrow> string) \<Rightarrow> string \<Rightarrow> string \<Rightarrow> ImageProcessingOptions \<Rightarrow> string" where
  "generateCachedPath join resourceId baseCacheDir options =
     (let cachedName = ''/'' @ resourceId;
          cachedName = (case quality options of
                          None \<Rightarrow> cachedName
                        | Some q \<Rightarrow> cachedName @ ''_quality-'' @ number_toString q);
          cachedName = (case maxDimension options of
                          None \<Rightarrow> cachedName
                        | Some m \<Rightarrow> cachedName @ ''_maxDimension-'' @ number_toString m)
      in join baseCacheDir cachedName)"

subsection \<open>The worker bookkeeping: module state\<close>

text \<open>
  The parameters of \<^verbatim>\<open>processImageWithWorker\<close>, and the message posted to the
  worker, \<^verbatim>\<open>{ ...params, messageID }\<close>: its field \<^verbatim>\<open>messageID\<close> is \<open>jobID\<close>
  here, \<open>messageID\<close> being the field of the worker's answer.
\<close>

record worker_params = ImageProcessingOptions +
  imgPath :: string
  savePath :: string

record worker_job = worker_params +
  jobID :: string

text \<open>What the worker sends back (the argument of \<^verbatim>\<open>imageProcessorOnMessage\<close>).\<close>

record worker_result =
  messageID :: string
  success :: bool
  buffer :: string
  error :: "string option"

text \<open>
  The module state, and the part of the runtime the module acts on.
  \<^item> \<open>imageProcessorHandles\<close>: the \<^verbatim>\<open>Map\<close> from message id to the array of
    handles, in insertion order; a handle is the number of its promise.
  \<^item> \<open>imageProcessor\<close>: the worker (its number), or \<open>None\<close> for \<^verbatim>\<open>null\<close>.
  \<^item> \<open>imageProcessorDeinitTimeout\<close>: the timer (its number), or \<open>None\<close>.
  \<^item> \<open>promises\<close>: how many promises were created; \<open>settled\<close>: every call of a
    promise's \<^verbatim>\<open>resolve\<close>, in order, with the \<^verbatim>\<open>Response\<close> object passed.
  \<^item> \<open>responses\<close>: the \<^verbatim>\<open>Response\<close> objects created, an object being its index.
  \<^item> \<open>timers\<close>: the pending timers with their delays; \<open>timersCreated\<close> counts them.
  \<^item> \<open>workers\<close>: how many workers were created; \<open>listening\<close>: the workers whose
    events are wired to the handlers; \<open>posted\<close>: every \<^verbatim>\<open>postMessage\<close>;
    \<open>terminated\<close>: the workers on which \<^verbatim>\<open>terminate()\<close> was called.
\<close>

record state =
  imageProcessorHandles :: "(string \<times> nat list) list"
  imageProcessor :: "nat option"
  imageProcessorDeinitTimeout :: "nat option"
  promises :: nat
  settled :: "(nat \<times> nat) list"
  responses :: "response list"
  timers :: "(nat \<times> nat) list"
  timersCreated :: nat
  workers :: nat
  listening :: "nat list"
  posted :: "(nat \<times> worker_job) list"
  terminated :: "nat list"

definition initial_state :: state where
  "initial_state =
     \<lparr>imageProcessorHandles = [], imageProcessor = None, imageProcessorDeinitTimeout = None,
      promises = 0, settled = [], responses = [], timers = [], timersCreated = 0,
      workers = 0, listening = [], posted = [], terminated = []\<rparr>"

text \<open>The \<^verbatim>\<open>Map\<close> operations the module uses.\<close>

definition Map_get :: "(string \<times> 'v) list \<Rightarrow> string \<Rightarrow> 'v option" where
  "Map_get m k = map_of m k"

definition Map_has :: "(string \<times> 'v) list \<Rightarrow> string \<Rightarrow> bool" where
  "Map_has m k = (map_of m k \<noteq> None)"

fun Map_set :: "(string \<times> 'v) list \<Rightarrow> string \<Rightarrow> 'v \<Rightarrow> (string \<times> 'v) list" where
  "Map_set [] k v = [(k, v)]"
| "Map_set ((k', v') # m) k v = (if k' = k then (k, v) # m else (k', v') # Map_set m k v)"

definition Map_delete :: "(string \<times> 'v) list \<Rightarrow> string \<Rightarrow> (string \<times> 'v) list" where
  "Map_delete m k = filter (\<lambda>e. fst e \<noteq> k) m"

text \<open>
  Runtime primitives: objects are allocated, never freed. A response is cloned only
  after it was created, so \<open>clone\<close> reads inside \<open>responses\<close>.
\<close>

definition new_Response :: "response \<Rightarrow> state \<Rightarrow> nat \<times> state" where
  "new_Response r s = (length (responses s), s\<lparr>responses := responses s @ [r]\<rparr>)"

definition clone :: "nat \<Rightarrow> state \<Rightarrow> nat \<times> state" where
  "clone r s = new_Response (responses s ! r) s"

definition new_Promise :: "state \<Rightarrow> nat \<times> state" where
  "new_Promise s = (promises s, s\<lparr>promises := Suc (promises s)\<rparr>)"

definition resolve :: "nat \<Rightarrow> nat \<Rightarrow> state \<Rightarrow> state" where
  "resolve p r s = s\<lparr>settled := settled s @ [(p, r)]\<rparr>"

definition setTimeout :: "nat \<Rightarrow> state \<Rightarrow> nat \<times> state" where
  "setTimeout delay s =
     (timersCreated s,
      s\<lparr>timers := timers s @ [(timersCreated s, delay)], timersCreated := Suc (timersCreated s)\<rparr>)"

definition clearTimeout :: "nat \<Rightarrow> state \<Rightarrow> state" where
  "clearTimeout t s = s\<lparr>timers := filter (\<lambda>e. fst e \<noteq> t) (timers s)\<rparr>"

definition postMessage :: "nat \<Rightarrow> worker_job \<Rightarrow> state \<Rightarrow> state" where
  "postMessage w j s = s\<lparr>posted := posted s @ [(w, j)]\<rparr>"

subsection \<open>The worker's event handlers\<close>

text \<open>
  \<^verbatim>\<open>imageProcessorOnMessage\<close>: no entry for the message id, no effect. Otherwise one
  response is built, every handle is resolved with a clone of it, and the entry is
  deleted. (The calls of the logger are not part of the model.)
\<close>

definition resolve_with_clone :: "nat \<Rightarrow> state \<Rightarrow> nat \<Rightarrow> state" where
  "resolve_with_clone response s handle = (case clone response s of (c, s') \<Rightarrow> resolve handle c s')"

definition message_response :: "worker_result \<Rightarrow> response" where
  "message_response result =
     (if \<not> success result
      then text_response
             (''Image Processing Error: '' @
                (case error result of None \<Rightarrow> ''undefined'' | Some e \<Rightarrow> e)) 500
      else buffer_response (buffer result))"

definition imageProcessorOnMessage :: "worker_result \<Rightarrow> state \<Rightarrow> state" where
  "imageProcessorOnMessage result s =
     (case Map_get (imageProcessorHandles s) (messageID result) of
        None \<Rightarrow> s
      | Some handles \<Rightarrow>
          (case new_Response (message_response result) s of
             (response, s1) \<Rightarrow>
               (let s2 = foldl (resolve_with_clone response) s1 handles
                in s2\<lparr>imageProcessorHandles :=
                        Map_delete (imageProcessorHandles s2) (messageID result)\<rparr>)))"

text \<open>
  \<^verbatim>\<open>imageProcessorOnError\<close>: every entry of the map is visited in order; each of its
  handles is resolved with a response of its own, then the entry is deleted.
\<close>

definition fatal_response :: response where
  "fatal_response = text_response ''Image Processing Error: Fatal error!'' 500"

definition resolve_fatal :: "state \<Rightarrow> nat \<Rightarrow> state" where
  "resolve_fatal s handle =
     (case new_Response fatal_response s of (r, s') \<Rightarrow> resolve handle r s')"

fun onError_entries :: "(string \<times> nat list) list \<Rightarrow> state \<Rightarrow> state" where
  "onError_entries [] s = s"
| "onError_entries ((key, handles) # rest) s =
     onError_entries rest
       (let s1 = foldl resolve_fatal s handles
        in s1\<lparr>imageProcessorHandles := Map_delete (imageProcessorHandles s1) key\<rparr>)"

definition imageProcessorOnError :: "state \<Rightarrow> state" where
  "imageProcessorOnError s = onError_entries (imageProcessorHandles s) s"

subsection \<open>Starting and stopping the worker\<close>

text \<open>
  \<^verbatim>\<open>initializeImageProcessor\<close>. Resolving the \<^verbatim>\<open>sharp\<close> module or creating the
  worker can throw; \<open>spawnFails\<close> says whether it does.
\<close>

datatype js_error =
    WorkerInitError
  | FetchError string
  | MkdirError string
  | RenameError string string
  | UpdateError string

definition initializeImageProcessor :: "bool \<Rightarrow> state \<Rightarrow> js_error + state" where
  "initializeImageProcessor spawnFails s =
     (if spawnFails then Inl WorkerInitError
      else Inr (s\<lparr>imageProcessor := Some (workers s), workers := Suc (workers s),
                  listening := listening s @ [workers s]\<rparr>))"

text \<open>
  \<^verbatim>\<open>deinitializeImageProcessor\<close>. The variable \<^verbatim>\<open>imageProcessor\<close> is set to
  \<^verbatim>\<open>null\<close> only when the promise of \<^verbatim>\<open>terminate()\<close> settles: that later step is
  \<open>terminate_settled\<close>.
\<close>

definition deinitializeImageProcessor :: "state \<Rightarrow> state" where
  "deinitializeImageProcessor s =
     (case imageProcessor s of
        None \<Rightarrow> s
      | Some w \<Rightarrow>
          if length (imageProcessorHandles s) > 0
          then (case setTimeout 10000 s of (t, s1) \<Rightarrow> s1\<lparr>imageProcessorDeinitTimeout := Some t\<rparr>)
          else s\<lparr>listening := filter (\<lambda>v. v \<noteq> w) (listening s),
                 terminated := terminated s @ [w],
                 imageProcessorDeinitTimeout := None\<rparr>)"

definition terminate_settled :: "state \<Rightarrow> state" where
  "terminate_settled s = s\<lparr>imageProcessor := None\<rparr>"

text \<open>A pending timer expires: it is no longer pending, and its callback runs.\<close>

definition timer_fires :: "nat \<Rightarrow> state \<Rightarrow> state" where
  "timer_fires t s =
     (if t \<in> fst ` set (timers s) then deinitializeImageProcessor (clearTimeout t s) else s)"

subsection \<open>Submitting a job\<close>

text \<open>
  \<^verbatim>\<open>processImageWithWorker(imageProcessor, params)\<close>; it has no suspension point, so
  it is one step. The result is the promise returned. (\<^verbatim>\<open>params.imgPath\<close> is a
  string, never \<^verbatim>\<open>undefined\<close>, and the promise constructor runs its executor at
  once, so the two guards of the source cannot fire.)
\<close>

definition processImageWithWorker :: "nat \<Rightarrow> worker_params \<Rightarrow> state \<Rightarrow> nat \<times> state" where
  "processImageWithWorker worker params s =
     (let messageID = imgPath params in
      case new_Promise s of
        (promise, s1) \<Rightarrow>
          (let s2 =
                 (case Map_get (imageProcessorHandles s1) messageID of
                    Some handles \<Rightarrow>
                      s1\<lparr>imageProcessorHandles :=
                           Map_set (imageProcessorHandles s1) messageID (handles @ [promise])\<rparr>
                  | None \<Rightarrow>
                      postMessage worker
                        (worker_params.extend params \<lparr>jobID = messageID\<rparr>)
                        (s1\<lparr>imageProcessorHandles :=
                              Map_set (imageProcessorHandles s1) messageID [promise]\<rparr>));
               s3 =
                 (case imageProcessorDeinitTimeout s2 of
                    Some t \<Rightarrow> (clearTimeout t s2)\<lparr>imageProcessorDeinitTimeout := None\<rparr>
                  | None \<Rightarrow> s2)
           in case setTimeout 10000 s3 of
                (t, s4) \<Rightarrow> (promise, s4\<lparr>imageProcessorDeinitTimeout := Some t\<rparr>)))"

subsection \<open>The platform and the world outside the module\<close>

text \<open>
  The catalog's records, as the handlers see them (\<^verbatim>\<open>SFFSResource\<close>) and as
  \<^verbatim>\<open>updateResource\<close> takes them (\<^verbatim>\<open>SFFSRawResource\<close>). The fields
  \<^verbatim>\<open>id\<close> and \<^verbatim>\<open>type\<close> carry a prime here.
\<close>

record SFFSResource =
  id' :: string
  path :: string
  type' :: string
  createdAt :: string
  updatedAt :: string
  deleted :: bool

record SFFSRawResource =
  raw_id :: string
  resource_path :: string
  resource_type :: string
  created_at :: string
  updated_at :: string
  raw_deleted :: nat

text \<open>
  Functions of the platform and of packages that are not part of this file
  (\<^verbatim>\<open>path.join\<close>, \<^verbatim>\<open>isPathSafe\<close> of \<^verbatim>\<open>./utils\<close>,
  \<^verbatim>\<open>getResourceFileExtension\<close> and \<^verbatim>\<open>getResourceFileName\<close> of
  \<^verbatim>\<open>@deta/utils\<close>, the latter composed with
  \<^verbatim>\<open>SFFSMain.convertResourceToCompositeResource\<close>), and the ways the outside can
  fail, are parameters:
  \<^item> \<open>userData\<close>: \<^verbatim>\<open>app.getPath('userData')\<close>;
  \<^item> \<open>mimeType\<close>: the content type \<^verbatim>\<open>net.fetch\<close> reports for a file (path, content);
  \<^item> \<open>mkdirFails\<close>, \<open>renameFails\<close>, \<open>updateFails\<close>: whether the call throws
    (a rename of a missing file always does);
  \<^item> \<open>sffs\<close>: whether \<^verbatim>\<open>useSFFSMain()\<close> returns an instance;
  \<^item> \<open>spawnFails\<close>: whether creating the worker throws;
  \<^item> \<open>errorText\<close>: what a template literal prints for a caught error;
  \<^item> \<open>now\<close>: \<^verbatim>\<open>new Date().toUTCString()\<close>.
\<close>

record platform =
  join :: "string \<Rightarrow> string \<Rightarrow> string"
  isPathSafe :: "string \<Rightarrow> string \<Rightarrow> bool"
  getResourceFileExtension :: "string \<Rightarrow> string"
  getResourceFileName :: "SFFSResource \<Rightarrow> string"
  userData :: string
  mimeType :: "string \<Rightarrow> string \<Rightarrow> string option"
  mkdirFails :: "string \<Rightarrow> bool"
  renameFails :: "string \<Rightarrow> string \<Rightarrow> bool"
  updateFails :: "SFFSRawResource \<Rightarrow> bool"
  sffs :: bool
  spawnFails :: bool
  errorText :: "js_error \<Rightarrow> string"
  now :: string

text \<open>
  The file system, the catalog, and the trace of what was asked of them, in order:
  a call is recorded whether it succeeds or not.
\<close>

datatype entry = File string | Dir

datatype op =
    Stat string
  | Mkdir string
  | Fetch string
  | Rename string string
  | Update SFFSRawResource
  | LogError js_error

record world =
  files :: "string \<Rightarrow> entry option"
  catalog :: "string \<Rightarrow> SFFSRawResource option"
  ops :: "op list"

definition record_op :: "op \<Rightarrow> world \<Rightarrow> world" where
  "record_op x w = w\<lparr>ops := ops w @ [x]\<rparr>"

text \<open>\<^verbatim>\<open>stat(p)\<close>: whether it succeeds.\<close>

definition stat :: "string \<Rightarrow> world \<Rightarrow> bool \<times> world" where
  "stat p w = (files w p \<noteq> None, record_op (Stat p) w)"

definition mkdir :: "platform \<Rightarrow> string \<Rightarrow> world \<Rightarrow> (js_error + unit) \<times> world" where
  "mkdir P p w =
     (if mkdirFails P p then (Inl (MkdirError p), record_op (Mkdir p) w)
      else (Inr (), (record_op (Mkdir p) w)\<lparr>files := (files w)(p \<mapsto> Dir)\<rparr>))"

text \<open>
  \<^verbatim>\<open>net.fetch(`file://${p}`)\<close>: the response for the file at \<open>p\<close>, or a throw when
  there is no file there. (A path with \<^verbatim>\<open>#\<close>, \<^verbatim>\<open>?\<close> or \<^verbatim>\<open>%\<close> in it, which
  the URL would split or decode, is outside what this models.)
\<close>

definition net_fetch :: "platform \<Rightarrow> string \<Rightarrow> world \<Rightarrow> (js_error + response) \<times> world" where
  "net_fetch P p w =
     (case files w p of
        Some (File c) \<Rightarrow>
          (Inr \<lparr>status = 200, body = c,
                headers = (case mimeType P p c of
                             None \<Rightarrow> []
                           | Some t \<Rightarrow> [(''content-type'', t)])\<rparr>,
           record_op (Fetch p) w)
      | _ \<Rightarrow> (Inl (FetchError p), record_op (Fetch p) w))"

definition rename :: "platform \<Rightarrow> string \<Rightarrow> string \<Rightarrow> world \<Rightarrow> (js_error + unit) \<times> world" where
  "rename P a b w =
     (if files w a = None \<or> renameFails P a b
      then (Inl (RenameError a b), record_op (Rename a b) w)
      else (Inr (), (record_op (Rename a b) w)\<lparr>files := (files w)(a := None, b := files w a)\<rparr>))"

text \<open>
  Modelled from the spec: the external catalog (\<^verbatim>\<open>./sffs\<close> is not part of the
  sources), \<^verbatim>\<open>readResource(id) -> Resource | NotFound\<close> and
  \<^verbatim>\<open>updateResource(record) -> ok | error\<close>: an update that succeeds stores the
  record under its id, and a read returns what is stored.
\<close>

definition updateResource ::
  "platform \<Rightarrow> SFFSRawResource \<Rightarrow> world \<Rightarrow> (js_error + unit) \<times> world" where
  "updateResource P raw w =
     (if updateFails P raw then (Inl (UpdateError (raw_id raw)), record_op (Update raw) w)
      else (Inr (), (record_op (Update raw) w)\<lparr>catalog := (catalog w)(raw_id raw \<mapsto> raw)\<rparr>))"

definition readResource :: "string \<Rightarrow> world \<Rightarrow> SFFSResource option" where
  "readResource i w =
     (case catalog w i of
        None \<Rightarrow> None
      | Some raw \<Rightarrow>
          Some \<lparr>id' = raw_id raw, path = resource_path raw, type' = resource_type raw,
                createdAt = created_at raw, updatedAt = updated_at raw,
                deleted = (raw_deleted raw \<noteq> 0)\<rparr>)"

subsection \<open>Serving an image\<close>

text \<open>
  \<^verbatim>\<open>surfProtocolHandleImages\<close> up to its \<^verbatim>\<open>await\<close> of the worker's promise: it
  either responds, or waits for a promise with the cache headers it has built.
  \<open>surfProtocolHandleImages_resume\<close> is what runs once the promise is resolved.
  The headers of the fetched response have lower-case names and the three cache headers
  do not, so the spread of both is their concatenation. Once the worker was initialised
  the variable \<^verbatim>\<open>imageProcessor\<close> is set: the branch for \<^verbatim>\<open>null\<close> after it is
  never taken (it stands for the error of posting to \<^verbatim>\<open>null\<close>).
\<close>

datatype outcome = Respond response | Await nat "(string \<times> string) list"

definition with_headers :: "response \<Rightarrow> (string \<times> string) list \<Rightarrow> response" where
  "with_headers r cacheHeaders =
     \<lparr>status = status r, body = body r, headers = headers r @ cacheHeaders\<rparr>"

definition createCacheDirIfNotExists ::
  "platform \<Rightarrow> string \<Rightarrow> world \<Rightarrow> (js_error + unit) \<times> world" where
  "createCacheDirIfNotExists P cacheDir w =
     (case stat cacheDir w of
        (True, w1) \<Rightarrow> (Inr (), w1)
      | (False, w1) \<Rightarrow> mkdir P cacheDir w1)"

definition internal_error :: "platform \<Rightarrow> js_error \<Rightarrow> world \<Rightarrow> outcome \<times> world" where
  "internal_error P e w =
     (Respond (text_response ([CHR 0x27] @ ''Internal Server Error: '' @ errorText P e) 500),
      record_op (LogError e) w)"

definition fetch_with_headers ::
  "platform \<Rightarrow> string \<Rightarrow> (string \<times> string) list \<Rightarrow> world \<Rightarrow> outcome \<times> world" where
  "fetch_with_headers P p cacheHeaders w =
     (case net_fetch P p w of
        (Inl e, w1) \<Rightarrow> internal_error P e w1
      | (Inr r, w1) \<Rightarrow> (Respond (with_headers r cacheHeaders), w1))"

definition surfProtocolHandleImages ::
  "platform \<Rightarrow> string \<Rightarrow> string \<Rightarrow> string \<Rightarrow> string \<Rightarrow> world \<times> state
     \<Rightarrow> outcome \<times> world \<times> state" where
  "surfProtocolHandleImages P requestURL resourceId imgPath' cacheDir ws =
     (case ws of (w, s) \<Rightarrow>
      case createCacheDirIfNotExists P cacheDir w of
        (Inl e, w1) \<Rightarrow> (case internal_error P e w1 of (out, w2) \<Rightarrow> (out, w2, s))
      | (Inr _, w1) \<Rightarrow>
          (let options = extractImageOptions requestURL;
               cacheHeaders =
                 [(''Cache-Control'', ''max-age=172800''),
                  (''ETag'', [CHR 0x22] @ resourceId @ [CHR 0x22]),
                  (''Last-Modified'', now P)]
           in if quality options = None \<and> maxDimension options = None
              then (case fetch_with_headers P imgPath' cacheHeaders w1 of (out, w2) \<Rightarrow> (out, w2, s))
              else
                (let cachedPath = generateCachedPath (join P) resourceId cacheDir options in
                 case stat cachedPath w1 of
                   (True, w2) \<Rightarrow>
                     (case fetch_with_headers P cachedPath cacheHeaders w2 of
                        (out, w3) \<Rightarrow> (out, w3, s))
                 | (False, w2) \<Rightarrow>
                     (case (case imageProcessor s of
                              None \<Rightarrow> initializeImageProcessor (spawnFails P) s
                            | Some _ \<Rightarrow> Inr s) of
                        Inl e \<Rightarrow> (case internal_error P e w2 of (out, w3) \<Rightarrow> (out, w3, s))
                      | Inr s1 \<Rightarrow>
                          (case imageProcessor s1 of
                             None \<Rightarrow>
                               (case internal_error P WorkerInitError w2 of
                                  (out, w3) \<Rightarrow> (out, w3, s1))
                           | Some worker \<Rightarrow>
                               (case processImageWithWorker worker
                                       \<lparr>quality = quality options,
                                        maxDimension = maxDimension options,
                                        imgPath = imgPath', savePath = cachedPath\<rparr> s1 of
                                  (promise, s2) \<Rightarrow> (Await promise cacheHeaders, w2, s2)))))))"

definition surfProtocolHandleImages_resume :: "(string \<times> string) list \<Rightarrow> nat \<Rightarrow> state \<Rightarrow> response" where
  "surfProtocolHandleImages_resume cacheHeaders r s = with_headers (responses s ! r) cacheHeaders"

subsection \<open>Locating a resource's file\<close>

record located =
  response :: response
  filePath :: string
  base :: string

definition endsWith :: "string \<Rightarrow> string \<Rightarrow> bool" where
  "endsWith str suf = (length suf \<le> length str \<and> drop (length str - length suf) str = suf)"

definition startsWith :: "string \<Rightarrow> string \<Rightarrow> bool" where
  "startsWith str pre = (take (length pre) str = pre)"

text \<open>\<^verbatim>\<open>fetchFilePath\<close>: \<open>None\<close> is the \<^verbatim>\<open>null\<close> of the \<^verbatim>\<open>catch\<close>.\<close>

definition fetchFilePath :: "platform \<Rightarrow> string \<Rightarrow> string \<Rightarrow> world \<Rightarrow> located option \<times> world" where
  "fetchFilePath P base_dir file_path w =
     (if \<not> isPathSafe P base_dir file_path
      then (Some \<lparr>response = text_response ''Forbidden'' 403, filePath = file_path,
                   base = base_dir\<rparr>, w)
      else (case net_fetch P file_path w of
              (Inl e, w1) \<Rightarrow> (None, w1)
            | (Inr r, w1) \<Rightarrow> (Some \<lparr>response = r, filePath = file_path, base = base_dir\<rparr>, w1)))"

definition migrateResourceFile ::
  "platform \<Rightarrow> string \<Rightarrow> string \<Rightarrow> SFFSResource option \<Rightarrow> world \<Rightarrow> (js_error + unit) \<times> world" where
  "migrateResourceFile P legacyFilePath newFilePath resource w =
     (case (if legacyFilePath \<noteq> newFilePath then rename P legacyFilePath newFilePath w
            else (Inr (), w)) of
        (Inl e, w1) \<Rightarrow> (Inl e, w1)
      | (Inr _, w1) \<Rightarrow>
          (case resource of
             None \<Rightarrow> (Inr (), w1)
           | Some r \<Rightarrow>
               if \<not> sffs P then (Inr (), w1)
               else updateResource P
                      \<lparr>raw_id = id' r, resource_path = newFilePath, resource_type = type' r,
                       created_at = createdAt r, updated_at = updatedAt r,
                       raw_deleted = (if deleted r then 1 else 0)\<rparr> w1))"

text \<open>
  \<^verbatim>\<open>fetchResourceFile\<close>. \<open>fetchResourceFile_try\<close> is the body of the \<^verbatim>\<open>try\<close>,
  a throw being \<open>Inl\<close>; the \<^verbatim>\<open>catch\<close> logs the error and answers 404.
\<close>

definition resources_base :: "platform \<Rightarrow> string" where
  "resources_base P = join P (join P (userData P) ''sffs_backend'') ''resources''"

definition newFilePath_of :: "platform \<Rightarrow> string \<Rightarrow> SFFSResource option \<Rightarrow> string" where
  "newFilePath_of P resourceId resource =
     (let extension = (case resource of None \<Rightarrow> [] | Some r \<Rightarrow> getResourceFileExtension P (type' r));
          newFileName = (case resource of None \<Rightarrow> resourceId | Some r \<Rightarrow> getResourceFileName P r)
      in join P (resources_base P)
           (if extension \<noteq> [] then newFileName @ ''.'' @ extension else resourceId))"

definition not_found :: "platform \<Rightarrow> string \<Rightarrow> located" where
  "not_found P resourceId =
     \<lparr>response = text_response ''Not Found'' 404,
      filePath = join P (resources_base P) resourceId, base = resources_base P\<rparr>"

definition fetchResourceFile_try ::
  "platform \<Rightarrow> string \<Rightarrow> SFFSResource option \<Rightarrow> world \<Rightarrow> (js_error + located) \<times> world" where
  "fetchResourceFile_try P resourceId resource w =
     (let extension = (case resource of None \<Rightarrow> [] | Some r \<Rightarrow> getResourceFileExtension P (type' r));
          newFilePath = newFilePath_of P resourceId resource;
          legacyFilePath = join P (resources_base P) resourceId
      in
      case (case resource of
              None \<Rightarrow> (None, w)
            | Some r \<Rightarrow>
                if path r \<noteq> [] \<and>
                   (endsWith (path r) (''.'' @ extension) \<or> endsWith (path r) ''.json'')
                then fetchFilePath P (resources_base P) (path r) w
                else (None, w)) of
        (Some result, w1) \<Rightarrow> (Inr result, w1)
      | (None, w1) \<Rightarrow>
          (case fetchFilePath P (resources_base P) newFilePath w1 of
             (Some result, w2) \<Rightarrow>
               if map_option path resource \<noteq> Some newFilePath
               then (case migrateResourceFile P newFilePath newFilePath resource w2 of
                       (Inl e, w3) \<Rightarrow> (Inl e, w3)
                     | (Inr _, w3) \<Rightarrow> (Inr result, w3))
               else (Inr result, w2)
           | (None, w2) \<Rightarrow>
               (case fetchFilePath P (resources_base P) legacyFilePath w2 of
                  (Some result, w3) \<Rightarrow>
                    (case migrateResourceFile P legacyFilePath newFilePath resource w3 of
                       (Inl e, w4) \<Rightarrow> (Inl e, w4)
                     | (Inr _, w4) \<Rightarrow> (Inr result, w4))
                | (None, w3) \<Rightarrow> (Inr (not_found P resourceId), w3))))"

definition fetchResourceFile ::
  "platform \<Rightarrow> string \<Rightarrow> SFFSResource option \<Rightarrow> world \<Rightarrow> located \<times> world" where
  "fetchResourceFile P resourceId resource w =
     (case fetchResourceFile_try P resourceId resource w of
        (Inr result, w1) \<Rightarrow> (result, w1)
      | (Inl e, w1) \<Rightarrow> (not_found P resourceId, record_op (LogError e) w1))"

subsection \<open>Routing\<close>

text \<open>
  \<^verbatim>\<open>handleSurfResourceDataRequest\<close>: the record is read from the catalog, the file is
  located, and an image that is not a GIF goes through the image handler.
\<close>

definition handleSurfResourceDataRequest ::
  "platform \<Rightarrow> string \<Rightarrow> string \<Rightarrow> world \<times> state \<Rightarrow> outcome \<times> world \<times> state" where
  "handleSurfResourceDataRequest P url resourceId ws =
     (case ws of (w, s) \<Rightarrow>
      case fetchResourceFile P resourceId (if sffs P then readResource resourceId w else None) w of
        (loc, w1) \<Rightarrow>
          (case map_of (headers (response loc)) ''content-type'' of
             Some t \<Rightarrow>
               if startsWith t ''image/'' \<and> \<not> startsWith t ''image/gif''
               then surfProtocolHandleImages P url resourceId (filePath loc)
                      (join P (base loc) ''cache'') (w1, s)
               else (Respond (response loc), w1, s)
           | None \<Rightarrow> (Respond (response loc), w1, s)))"

text \<open>
  \<^verbatim>\<open>surfProtocolHandler\<close>, as the handler it hands the request to. The regular
  expression \<^verbatim>\<open>^surf:\/\/surf\/resource\/([^\/\?]+)\<close> is \<open>direct_resource_id\<close>.
  (The URL of a request parses, so \<^verbatim>\<open>new URL\<close> does not throw here.)
\<close>

datatype handler_call =
    HandleSurfResourceDataRequest string string
  | HandleSurfFileRequest string

definition direct_resource_id :: "string \<Rightarrow> string option" where
  "direct_resource_id url =
     (if take 21 url = ''surf://surf/resource/''
      then (let i = takeWhile (\<lambda>c. c \<noteq> CHR ''/'' \<and> c \<noteq> CHR ''?'') (drop 21 url)
            in if i = [] then None else Some i)
      else None)"

definition surfProtocolHandler :: "string \<Rightarrow> handler_call" where
  "surfProtocolHandler url =
     (case direct_resource_id url of
        Some i \<Rightarrow>
          if searchParams_has (searchParams url) ''raw'' \<and>
             searchParams_get (searchParams url) ''raw'' \<noteq> Some ''false''
          then HandleSurfResourceDataRequest url i
          else HandleSurfFileRequest url
      | None \<Rightarrow> HandleSurfFileRequest url)"

subsection \<open>Runs of the module\<close>


text \<open>
  What can happen to the module, one event at a time: a request reaches
  \<^verbatim>\<open>surfProtocolHandleImages\<close> (URL, resource id, image path, cache directory); the
  worker sends a message; the worker reports an error; a timer expires; the promise of
  \<^verbatim>\<open>terminate()\<close> settles; somebody (the worker, for one) writes a file.
\<close>

datatype event =
    Request string string string string
  | WorkerMessage worker_result
  | WorkerError
  | TimerFires nat
  | TerminateSettled
  | FileWritten string string

fun step :: "platform \<Rightarrow> world \<times> state \<Rightarrow> event \<Rightarrow> world \<times> state" where
  "step P ws (Request url rid img dir) = snd (surfProtocolHandleImages P url rid img dir ws)"
| "step P (w, s) (WorkerMessage result) = (w, imageProcessorOnMessage result s)"
| "step P (w, s) WorkerError = (w, imageProcessorOnError s)"
| "step P (w, s) (TimerFires t) = (w, timer_fires t s)"
| "step P (w, s) TerminateSettled = (w, terminate_settled s)"
| "step P (w, s) (FileWritten p c) = (w\<lparr>files := (files w)(p \<mapsto> File c)\<rparr>, s)"

definition run :: "platform \<Rightarrow> event list \<Rightarrow> world \<times> state \<Rightarrow> world \<times> state" where
  "run P evs ws = foldl (step P) ws evs"

text \<open>
  A platform and worlds to run the handlers on: paths are joined with a slash, every
  path is safe, resources of type \<^verbatim>\<open>image\<close> have the extension \<^verbatim>\<open>png\<close> and are
  named after their id, and nothing fails.
\<close>

definition test_platform :: platform where
  "test_platform =
     \<lparr>join = (\<lambda>a b. if take 1 b = ''/'' then a @ b else a @ ''/'' @ b),
      isPathSafe = (\<lambda>b p. True),
      getResourceFileExtension = (\<lambda>t. if t = ''image'' then ''png'' else []),
      getResourceFileName = (\<lambda>r. id' r),
      userData = ''/u'',
      mimeType = (\<lambda>p c. None),
      mkdirFails = (\<lambda>p. False),
      renameFails = (\<lambda>a b. False),
      updateFails = (\<lambda>r. False),
      sffs = True,
      spawnFails = False,
      errorText = (\<lambda>e. ''error''),
      now = ''now''\<rparr>"

definition empty_world :: world where
  "empty_world = \<lparr>files = (\<lambda>p. None), catalog = (\<lambda>i. None), ops = []\<rparr>"

text \<open>
  The promises still waiting, and what the bookkeeping maintains: no promise waits
  twice, none that was resolved still waits or was resolved twice, and all of them were
  created.
\<close>

definition waiters :: "state \<Rightarrow> nat list" where
  "waiters s = concat (map snd (imageProcessorHandles s))"

definition handles_inv :: "state \<Rightarrow> bool" where
  "handles_inv s =
     (distinct (waiters s @ map fst (settled s)) \<and>
      list_all (\<lambda>p. p < promises s) (waiters s @ map fst (settled s)))"

subsection \<open>The locator as an ordered list of candidates\<close>

text \<open>
  The paths \<^verbatim>\<open>fetchResourceFile\<close> hands to \<^verbatim>\<open>fetchFilePath\<close>, numbered in the
  order of the source: (1) the record's stored path, tried only if it ends in the
  extension of the record's kind or in \<^verbatim>\<open>.json\<close>; (2) the new path; (3) the legacy
  path. \<open>first_found\<close> is the search as the source performs it: it ends at the first
  path for which \<^verbatim>\<open>fetchFilePath\<close> returns a result, the 403 of an unsafe path
  included.
\<close>

definition candidates :: "platform \<Rightarrow> string \<Rightarrow> SFFSResource option \<Rightarrow> (nat \<times> string) list" where
  "candidates P resourceId resource =
     (case resource of
        None \<Rightarrow> []
      | Some r \<Rightarrow>
          if path r \<noteq> [] \<and>
             (endsWith (path r) (''.'' @ getResourceFileExtension P (type' r)) \<or>
              endsWith (path r) ''.json'')
          then [(1, path r)] else [])
     @ [(2, newFilePath_of P resourceId resource),
        (3, join P (resources_base P) resourceId)]"

fun first_found ::
  "platform \<Rightarrow> string \<Rightarrow> (nat \<times> string) list \<Rightarrow> world \<Rightarrow> (nat \<times> located) option \<times> world" where
  "first_found P b [] w = (None, w)"
| "first_found P b ((n, p) # cs) w =
     (case fetchFilePath P b p w of
        (Some result, w1) \<Rightarrow> (Some (n, result), w1)
      | (None, w1) \<Rightarrow> first_found P b cs w1)"

subsection \<open>What the locator is to do, on the files themselves\<close>

text \<open>
  The notions in which the properties of the locator are stated; none of them is built
  from the functions of the locator. With \<open>b\<close> the base directory:
  \<^item> a path \<open>resolves\<close> when it is rejected as unsafe or a file lies at it;
  \<^item> the \<open>answer\<close> at a path that resolves is 403 Forbidden when the path is unsafe,
    and the file's bytes with status 200 otherwise;
  \<^item> \<open>fetch_ops\<close>: a safe path is fetched, an unsafe one is not;
  \<^item> a migration from \<open>src\<close> to \<open>dst\<close> asks for the rename when the two differ, and
    then, the rename not having failed, for the update of the record's path if there
    are a record and a catalog; it throws when the rename fails (the source is missing
    or the rename is refused) or the update fails: \<open>migration_throws\<close>, and
    \<open>migration_ops\<close> for what it asks and logs.
\<close>

definition is_file :: "world \<Rightarrow> string \<Rightarrow> bool" where
  "is_file w p = (case files w p of Some (File c) \<Rightarrow> True | _ \<Rightarrow> False)"

definition resolves :: "platform \<Rightarrow> string \<Rightarrow> world \<Rightarrow> string \<Rightarrow> bool" where
  "resolves P b w p = (\<not> isPathSafe P b p \<or> is_file w p)"

definition answer :: "platform \<Rightarrow> string \<Rightarrow> world \<Rightarrow> string \<Rightarrow> located" where
  "answer P b w p =
     \<lparr>response =
        (if \<not> isPathSafe P b p then text_response ''Forbidden'' 403
         else (case files w p of
                 Some (File c) \<Rightarrow>
                   \<lparr>status = 200, body = c,
                    headers = (case mimeType P p c of
                                 None \<Rightarrow> [] | Some t \<Rightarrow> [(''content-type'', t)])\<rparr>
               | _ \<Rightarrow> text_response ''Not Found'' 404)),
      filePath = p, base = b\<rparr>"

definition fetch_ops :: "platform \<Rightarrow> string \<Rightarrow> string \<Rightarrow> op list" where
  "fetch_ops P b p = (if isPathSafe P b p then [Fetch p] else [])"

definition raw_record :: "SFFSResource \<Rightarrow> string \<Rightarrow> SFFSRawResource" where
  "raw_record r p =
     \<lparr>raw_id = id' r, resource_path = p, resource_type = type' r,
      created_at = createdAt r, updated_at = updatedAt r,
      raw_deleted = (if deleted r then 1 else 0)\<rparr>"

definition rename_throws :: "platform \<Rightarrow> world \<Rightarrow> string \<Rightarrow> string \<Rightarrow> bool" where
  "rename_throws P w src dst = (src \<noteq> dst \<and> (files w src = None \<or> renameFails P src dst))"

definition update_throws :: "platform \<Rightarrow> SFFSResource option \<Rightarrow> string \<Rightarrow> bool" where
  "update_throws P resource dst =
     (case resource of None \<Rightarrow> False | Some r \<Rightarrow> sffs P \<and> updateFails P (raw_record r dst))"

definition migration_throws ::
  "platform \<Rightarrow> world \<Rightarrow> SFFSResource option \<Rightarrow> string \<Rightarrow> string \<Rightarrow> bool" where
  "migration_throws P w resource src dst =
     (rename_throws P w src dst \<or> update_throws P resource dst)"

definition migration_ops ::
  "platform \<Rightarrow> world \<Rightarrow> SFFSResource option \<Rightarrow> string \<Rightarrow> string \<Rightarrow> op list" where
  "migration_ops P w resource src dst =
     (if src \<noteq> dst then [Rename src dst] else []) @
     (if rename_throws P w src dst then [LogError (RenameError src dst)]
      else (case resource of
              None \<Rightarrow> []
            | Some r \<Rightarrow>
                if sffs P
                then Update (raw_record r dst) #
                     (if updateFails P (raw_record r dst) then [LogError (UpdateError (id' r))]
                      else [])
                else []))"

text \<open>The renames in a trace.\<close>

fun is_rename :: "op \<Rightarrow> bool" where
  "is_rename (Rename a b) = True"
| "is_rename x = False"

definition renames :: "world \<Rightarrow> op list" where
  "renames w = filter is_rename (ops w)"

text \<open>
  Worlds and records to run the locator and the image handler on: a resource \<^verbatim>\<open>1\<close>
  of type \<^verbatim>\<open>image\<close> whose file lies at the legacy path only; a cache directory with the
  cache file of quality 1 of that resource; a platform whose renames fail.
\<close>

definition image_record :: SFFSResource where
  "image_record =
     \<lparr>id' = ''1'', path = [], type' = ''image'', createdAt = ''t'', updatedAt = ''t'',
      deleted = False\<rparr>"

definition legacy_world :: world where
  "legacy_world = empty_world\<lparr>files := (\<lambda>p. None)(''/u/sffs_backend/resources/1'' \<mapsto> File ''x'')\<rparr>"

definition cached_world :: world where
  "cached_world =
     empty_world\<lparr>files := (\<lambda>p. None)(''/c'' \<mapsto> Dir, ''/c/1_quality-1'' \<mapsto> File ''x'')\<rparr>"

definition failing_rename_platform :: platform where
  "failing_rename_platform = test_platform\<lparr>renameFails := (\<lambda>a b. True)\<rparr>"

text \<open>
  A record whose stored path lies outside the base directory, on a platform that rejects
  that path, in a world where the file lies at the current-scheme path; and a resource
  \<^verbatim>\<open>1.json\<close> whose record stores the legacy path, where its file lies.
\<close>

definition outside_record :: SFFSResource where
  "outside_record = image_record\<lparr>path := ''/x/1.png''\<rparr>"

definition guarding_platform :: platform where
  "guarding_platform = test_platform\<lparr>isPathSafe := (\<lambda>b p. take (length b) p = b)\<rparr>"

definition current_world :: world where
  "current_world =
     empty_world\<lparr>files := (\<lambda>p. None)(''/u/sffs_backend/resources/1.png'' \<mapsto> File ''x'')\<rparr>"

definition json_record :: SFFSResource where
  "json_record =
     \<lparr>id' = ''1.json'', path = ''/u/sffs_backend/resources/1.json'', type' = ''image'',
      createdAt = ''t'', updatedAt = ''t'', deleted = False\<rparr>"

definition json_world :: world where
  "json_world =
     empty_world\<lparr>files := (\<lambda>p. None)(''/u/sffs_backend/resources/1.json'' \<mapsto> File ''x'')\<rparr>"

section \<open>Properties\<close>

subsection \<open>The map of handles\<close>

lemma Map_get_Map_set: "Map_get (Map_set m k v) k' = (if k' = k then Some v else Map_get m k')"
  by (induction m) (auto simp: Map_get_def)

lemma Map_has_Map_get: "Map_has m k = (Map_get m k \<noteq> None)"
  by (simp add: Map_has_def Map_get_def)

lemma Map_has_Map_set: "Map_has (Map_set m k v) k' = (k' = k \<or> Map_has m k')"
  by (simp add: Map_has_Map_get Map_get_Map_set)

lemma Map_get_Map_delete: "Map_get (Map_delete m k) k' = (if k' = k then None else Map_get m k')"
  by (induction m) (auto simp: Map_get_def Map_delete_def)

subsection \<open>The cache path and the key of the jobs in flight\<close>

text \<open>
  C1 (amended). The cache path is the cache directory joined with \<^verbatim>\<open>/<resourceId>\<close>,
  followed by \<^verbatim>\<open>_quality-<n>\<close> when a quality is given and then by
  \<^verbatim>\<open>_maxDimension-<n>\<close> when a maximal dimension is given, in that order. The key
  under which a job is in flight is not this path: it is the path of the image,
  \<^verbatim>\<open>params.imgPath\<close>, whatever the quality and the maximal dimension are: after a
  submission that key has an entry, and a job is posted (with that key as its message id)
  exactly when the key had no entry before.
\<close>

theorem cache_path_and_message_id:
  "generateCachedPath j rid dir \<lparr>quality = None, maxDimension = None\<rparr> = j dir (''/'' @ rid) \<and>
   generateCachedPath j rid dir \<lparr>quality = Some q, maxDimension = None\<rparr> =
     j dir (''/'' @ rid @ ''_quality-'' @ number_toString q) \<and>
   generateCachedPath j rid dir \<lparr>quality = None, maxDimension = Some m\<rparr> =
     j dir (''/'' @ rid @ ''_maxDimension-'' @ number_toString m) \<and>
   generateCachedPath j rid dir \<lparr>quality = Some q, maxDimension = Some m\<rparr> =
     j dir (''/'' @ rid @ ''_quality-'' @ number_toString q @ ''_maxDimension-'' @ number_toString m) \<and>
   Map_has (imageProcessorHandles (snd (processImageWithWorker w params s))) k =
     (k = imgPath params \<or> Map_has (imageProcessorHandles s) k) \<and>
   posted (snd (processImageWithWorker w params s)) =
     (if Map_has (imageProcessorHandles s) (imgPath params) then posted s
      else posted s @ [(w, worker_params.extend params \<lparr>jobID = imgPath params\<rparr>)])"
  by (auto simp: generateCachedPath_def processImageWithWorker_def new_Promise_def Let_def
      setTimeout_def clearTimeout_def postMessage_def Map_has_Map_get Map_get_Map_set
      split: option.splits prod.splits)

text \<open>
  C1 as stated fails: two requests for the image \<^verbatim>\<open>/r/1\<close>, one with quality 50 and
  one with quality 80, have different cache paths, and yet the second finds the first
  one's entry: the only job posted is the one of quality 50.
\<close>

theorem dedup_key_counterexample:
  "generateCachedPath (\<lambda>a b. a @ b) ''1'' ''/c'' \<lparr>quality = Some (Num 50), maxDimension = None\<rparr>
     \<noteq> generateCachedPath (\<lambda>a b. a @ b) ''1'' ''/c'' \<lparr>quality = Some (Num 80), maxDimension = None\<rparr> \<and>
   posted (snd (processImageWithWorker 0
                  \<lparr>quality = Some (Num 80), maxDimension = None,
                   imgPath = ''/r/1'', savePath = ''/c/1_quality-80''\<rparr>
                  (snd (processImageWithWorker 0
                          \<lparr>quality = Some (Num 50), maxDimension = None,
                           imgPath = ''/r/1'', savePath = ''/c/1_quality-50''\<rparr>
                          initial_state)))) =
     [(0, \<lparr>quality = Some (Num 50), maxDimension = None,
           imgPath = ''/r/1'', savePath = ''/c/1_quality-50'',
           jobID = ''/r/1''\<rparr>)]"
  by code_simp

subsection \<open>The raw flag\<close>

text \<open>
  C9 (amended). For a request whose URL matches the direct resource path, the request is
  handed to the resource data handler exactly when the query has a parameter
  \<^verbatim>\<open>raw\<close> whose (first) value is not \<^verbatim>\<open>false\<close>; otherwise it is handed to the
  file handler.
\<close>

theorem raw_flag_routing:
  "direct_resource_id url = Some i \<Longrightarrow>
   surfProtocolHandler url =
     (if searchParams_has (searchParams url) ''raw'' \<and>
         searchParams_get (searchParams url) ''raw'' \<noteq> Some ''false''
      then HandleSurfResourceDataRequest url i
      else HandleSurfFileRequest url)"
  by (simp add: surfProtocolHandler_def)

theorem raw_flag_routing_witness:
  "direct_resource_id ''surf://surf/resource/abc?raw=1'' = Some ''abc'' \<and>
   surfProtocolHandler ''surf://surf/resource/abc?raw=1'' =
     HandleSurfResourceDataRequest ''surf://surf/resource/abc?raw=1'' ''abc''"
proof -
  have h: "direct_resource_id ''surf://surf/resource/abc?raw=1'' = Some ''abc''"
    by code_simp
  have c: "searchParams_has (searchParams ''surf://surf/resource/abc?raw=1'') ''raw'' \<and>
         searchParams_get (searchParams ''surf://surf/resource/abc?raw=1'') ''raw'' \<noteq> Some ''false''"
    by code_simp
  show ?thesis using h c raw_flag_routing [OF h] by simp
qed

text \<open>
  C9 as stated fails: with \<^verbatim>\<open>raw=false\<close> the parameter is present, and the request
  goes to the file handler.
\<close>

theorem raw_false_counterexample:
  "direct_resource_id ''surf://surf/resource/abc?raw=false'' = Some ''abc'' \<and>
   searchParams_has (searchParams ''surf://surf/resource/abc?raw=false'') ''raw'' \<and>
   surfProtocolHandler ''surf://surf/resource/abc?raw=false'' =
     HandleSurfFileRequest ''surf://surf/resource/abc?raw=false''"
  by code_simp

subsection \<open>Submitting jobs and receiving their results\<close>

lemma processImageWithWorker_eq:
  "processImageWithWorker w p s =
     (promises s,
      s\<lparr>imageProcessorHandles :=
           Map_set (imageProcessorHandles s) (imgPath p)
             ((case Map_get (imageProcessorHandles s) (imgPath p) of None \<Rightarrow> [] | Some hs \<Rightarrow> hs)
                @ [promises s]),
         promises := Suc (promises s),
         posted := (if Map_has (imageProcessorHandles s) (imgPath p) then posted s
                    else posted s @ [(w, worker_params.extend p \<lparr>jobID = imgPath p\<rparr>)]),
         timers := filter (\<lambda>e. Some (fst e) \<noteq> imageProcessorDeinitTimeout s) (timers s)
                    @ [(timersCreated s, 10000)],
         timersCreated := Suc (timersCreated s),
         imageProcessorDeinitTimeout := Some (timersCreated s)\<rparr>)"
  by (cases "Map_get (imageProcessorHandles s) (imgPath p)";
      cases "imageProcessorDeinitTimeout s")
     (simp_all add: processImageWithWorker_def new_Promise_def setTimeout_def clearTimeout_def
        postMessage_def Map_has_Map_get Let_def)

lemma upt_add_Suc: "[n ..< n + Suc m] = n # [Suc n ..< Suc n + m]"
  by (simp add: upt_conv_Cons)

lemma foldl_resolve_with_clone:
  "r < length (responses s) \<Longrightarrow>
   foldl (resolve_with_clone r) s hs =
     s\<lparr>responses := responses s @ replicate (length hs) (responses s ! r),
       settled := settled s @ zip hs [length (responses s) ..< length (responses s) + length hs]\<rparr>"
proof (induction hs arbitrary: s)
  case Nil
  then show ?case by simp
next
  case (Cons h hs)
  let ?s1 = "resolve_with_clone r s h"
  have s1: "?s1 = s\<lparr>responses := responses s @ [responses s ! r],
                     settled := settled s @ [(h, length (responses s))]\<rparr>"
    by (simp add: resolve_with_clone_def clone_def new_Response_def resolve_def)
  have r1: "r < length (responses ?s1)" using Cons.prems by (simp add: s1)
  have nth1: "responses ?s1 ! r = responses s ! r"
    using Cons.prems by (simp add: s1 nth_append)
  have upt: "[length (responses s) ..< length (responses s) + length (h # hs)] =
             length (responses s) # [Suc (length (responses s)) ..< Suc (length (responses s)) + length hs]"
    using upt_add_Suc [of "length (responses s)" "length hs"] by simp
  have "foldl (resolve_with_clone r) s (h # hs) = foldl (resolve_with_clone r) ?s1 hs"
    by simp
  also have "\<dots> = ?s1\<lparr>responses := responses ?s1 @ replicate (length hs) (responses ?s1 ! r),
       settled := settled ?s1 @ zip hs [length (responses ?s1) ..< length (responses ?s1) + length hs]\<rparr>"
    by (rule Cons.IH [OF r1])
  also have "\<dots> = s\<lparr>responses := responses s @ replicate (length (h # hs)) (responses s ! r),
       settled := settled s @ zip (h # hs) [length (responses s) ..< length (responses s) + length (h # hs)]\<rparr>"
    unfolding nth1 upt by (simp add: s1 replicate_app_Cons_same)
  finally show ?case .
qed

lemma imageProcessorOnMessage_Some:
  assumes "Map_get (imageProcessorHandles s) (messageID result) = Some hs"
  shows "imageProcessorOnMessage result s =
     s\<lparr>responses := responses s @ replicate (Suc (length hs)) (message_response result),
       settled := settled s @
          zip hs [Suc (length (responses s)) ..< Suc (length (responses s)) + length hs],
       imageProcessorHandles := Map_delete (imageProcessorHandles s) (messageID result)\<rparr>"
proof -
  let ?s1 = "s\<lparr>responses := responses s @ [message_response result]\<rparr>"
  have nr: "new_Response (message_response result) s = (length (responses s), ?s1)"
    by (simp add: new_Response_def)
  have f: "foldl (resolve_with_clone (length (responses s))) ?s1 hs =
     ?s1\<lparr>responses := responses ?s1 @ replicate (length hs) (responses ?s1 ! length (responses s)),
       settled := settled ?s1 @ zip hs [length (responses ?s1) ..< length (responses ?s1) + length hs]\<rparr>"
    by (rule foldl_resolve_with_clone) simp
  show ?thesis
    unfolding imageProcessorOnMessage_def assms option.case nr prod.case Let_def f
    by (simp add: replicate_app_Cons_same)
qed

lemma imageProcessorOnMessage_None:
  "Map_get (imageProcessorHandles s) (messageID result) = None \<Longrightarrow>
   imageProcessorOnMessage result s = s"
  by (simp add: imageProcessorOnMessage_def)




subsection \<open>The fatal error of the worker\<close>

lemma upt_add_append: "[n ..< n + (a + b)] = [n ..< n + a] @ [n + a ..< n + a + b]"
  using upt_add_eq_append [of n "n + a" b] by (simp add: add.assoc)

lemma foldl_resolve_fatal:
  "foldl resolve_fatal s hs =
     s\<lparr>responses := responses s @ replicate (length hs) fatal_response,
       settled := settled s @ zip hs [length (responses s) ..< length (responses s) + length hs]\<rparr>"
proof (induction hs arbitrary: s)
  case Nil
  then show ?case by simp
next
  case (Cons h hs)
  have s1: "resolve_fatal s h = s\<lparr>responses := responses s @ [fatal_response],
                     settled := settled s @ [(h, length (responses s))]\<rparr>"
    by (simp add: resolve_fatal_def new_Response_def resolve_def)
  show ?case
    using upt_add_Suc [of "length (responses s)" "length hs"]
    by (simp add: Cons.IH s1 replicate_app_Cons_same)
qed

lemma onError_entries_eq:
  "onError_entries es s =
     s\<lparr>responses := responses s @ replicate (length (concat (map snd es))) fatal_response,
       settled := settled s @
          zip (concat (map snd es))
              [length (responses s) ..< length (responses s) + length (concat (map snd es))],
       imageProcessorHandles := filter (\<lambda>e. fst e \<notin> fst ` set es) (imageProcessorHandles s)\<rparr>"
proof (induction es arbitrary: s)
  case Nil
  then show ?case by simp
next
  case (Cons e es)
  obtain key hs where e: "e = (key, hs)" by (cases e)
  let ?n = "length (responses s)"
  have z: "zip (hs @ concat (map snd es)) [?n ..< ?n + (length hs + length (concat (map snd es)))] =
           zip hs [?n ..< ?n + length hs] @
           zip (concat (map snd es)) [?n + length hs ..< ?n + length hs + length (concat (map snd es))]"
    unfolding upt_add_append by (simp add: zip_append)
  have fl: "filter (\<lambda>e. fst e \<notin> fst ` set es) (Map_delete (imageProcessorHandles s) key) =
            filter (\<lambda>e. fst e \<noteq> key \<and> fst e \<notin> fst ` set es) (imageProcessorHandles s)"
    by (simp add: Map_delete_def conj_commute)
  show ?case
    unfolding e onError_entries.simps Cons.IH
    by (simp add: foldl_resolve_fatal Let_def z fl replicate_add add.assoc)
qed

lemma filter_not_in_own_keys: "filter (\<lambda>e. fst e \<notin> fst ` set m) m = []"
  by (simp add: filter_empty_conv)

text \<open>
  C3 (amended). On a fatal error of the worker every promise waiting under any message
  id is resolved, in the order of the map, with a response of its own of status 500, and
  the map of handles is empty afterwards. The handler leaves the worker variable, the
  teardown timer, the count of workers and the terminated workers as they were: it does
  not mark the worker dead.
\<close>

theorem fatal_error_broadcast:
  "imageProcessorHandles (imageProcessorOnError s) = [] \<and>
   settled (imageProcessorOnError s) =
     settled s @ zip (concat (map snd (imageProcessorHandles s)))
                     [length (responses s) ..<
                      length (responses s) + length (concat (map snd (imageProcessorHandles s)))] \<and>
   responses (imageProcessorOnError s) =
     responses s @ replicate (length (concat (map snd (imageProcessorHandles s))))
                     (text_response ''Image Processing Error: Fatal error!'' 500) \<and>
   imageProcessor (imageProcessorOnError s) = imageProcessor s \<and>
   imageProcessorDeinitTimeout (imageProcessorOnError s) = imageProcessorDeinitTimeout s \<and>
   timers (imageProcessorOnError s) = timers s \<and>
   workers (imageProcessorOnError s) = workers s \<and>
   terminated (imageProcessorOnError s) = terminated s"
  by (simp add: imageProcessorOnError_def onError_entries_eq filter_not_in_own_keys
        fatal_response_def)

text \<open>
  C3 as stated fails in its last part: after a request that started worker 0 and a fatal
  error, the worker variable still holds worker 0; the next request starts no worker (one
  worker was created in all) and posts its job to worker 0.
\<close>

theorem fatal_error_worker_kept_counterexample:
  "imageProcessor (snd (run test_platform
       [Request ''surf://surf/resource/1?raw&quality=1'' ''1'' ''/r/1'' ''/c'', WorkerError]
       (empty_world, initial_state))) = Some 0 \<and>
   workers (snd (run test_platform
       [Request ''surf://surf/resource/1?raw&quality=1'' ''1'' ''/r/1'' ''/c'', WorkerError,
        Request ''surf://surf/resource/2?raw&quality=1'' ''2'' ''/r/2'' ''/c'']
       (empty_world, initial_state))) = 1 \<and>
   map fst (posted (snd (run test_platform
       [Request ''surf://surf/resource/1?raw&quality=1'' ''1'' ''/r/1'' ''/c'', WorkerError,
        Request ''surf://surf/resource/2?raw&quality=1'' ''2'' ''/r/2'' ''/c'']
       (empty_world, initial_state)))) = [0, 0]"
  by code_simp

subsection \<open>No promise is resolved twice\<close>

lemma push_handle:
  "n \<notin> set (concat (map snd m)) \<Longrightarrow> distinct (concat (map snd m)) \<Longrightarrow>
   distinct (concat (map snd
      (Map_set m k ((case Map_get m k of None \<Rightarrow> [] | Some hs \<Rightarrow> hs) @ [n])))) \<and>
   set (concat (map snd
      (Map_set m k ((case Map_get m k of None \<Rightarrow> [] | Some hs \<Rightarrow> hs) @ [n])))) =
     insert n (set (concat (map snd m)))"
proof (induction m)
  case Nil
  then show ?case by (simp add: Map_get_def)
next
  case (Cons e m)
  obtain k' v' where e: "e = (k', v')" by (cases e)
  show ?case
  proof (cases "k' = k")
    case True
    then show ?thesis using Cons.prems by (auto simp: e Map_get_def)
  next
    case False
    have g: "Map_get (e # m) k = Map_get m k" using False by (simp add: e Map_get_def)
    have p1: "n \<notin> set (concat (map snd m))" and p2: "distinct (concat (map snd m))"
      using Cons.prems by simp_all
    show ?thesis
      unfolding g using Cons.IH [OF p1 p2] Cons.prems False by (auto simp: e)
  qed
qed

lemma waiters_filter:
  "distinct (concat (map snd m)) \<Longrightarrow>
   distinct (concat (map snd (filter Q m))) \<and>
   set (concat (map snd (filter Q m))) \<subseteq> set (concat (map snd m))"
  by (induction m) auto

lemma take_handles:
  "Map_get m k = Some hs \<Longrightarrow> distinct (concat (map snd m)) \<Longrightarrow>
   distinct hs \<and> set hs \<subseteq> set (concat (map snd m)) \<and>
   distinct (concat (map snd (Map_delete m k))) \<and>
   set (concat (map snd (Map_delete m k))) \<subseteq> set (concat (map snd m)) \<and>
   set hs \<inter> set (concat (map snd (Map_delete m k))) = {}"
proof (induction m)
  case Nil
  then show ?case by (simp add: Map_get_def)
next
  case (Cons e m)
  obtain k' v' where e: "e = (k', v')" by (cases e)
  have d: "distinct (concat (map snd m))" using Cons.prems(2) by simp
  note f = waiters_filter [OF d, of "\<lambda>e. fst e \<noteq> k"]
  show ?case
  proof (cases "k' = k")
    case True
    then have hs: "hs = v'" using Cons.prems(1) by (simp add: e Map_get_def)
    show ?thesis using Cons.prems(2) f True by (auto simp: e hs Map_delete_def)
  next
    case False
    then have g: "Map_get m k = Some hs" using Cons.prems(1) by (simp add: e Map_get_def)
    show ?thesis using Cons.IH [OF g d] Cons.prems(2) False by (auto simp: e Map_delete_def)
  qed
qed

lemma handles_inv_initial: "handles_inv initial_state"
  by (simp add: handles_inv_def waiters_def initial_state_def)

lemma handles_inv_processImageWithWorker:
  assumes "handles_inv s"
  shows "handles_inv (snd (processImageWithWorker v p s))"
proof -
  let ?m = "imageProcessorHandles s"
  have d: "distinct (concat (map snd ?m))" and n: "promises s \<notin> set (concat (map snd ?m))"
    and ns: "promises s \<notin> fst ` set (settled s)"
    using assms by (auto simp: handles_inv_def waiters_def list_all_iff)
  note ph = push_handle [OF n d, of "imgPath p"]
  show ?thesis
    using assms ph ns
    by (auto simp: handles_inv_def waiters_def processImageWithWorker_eq list_all_iff
          intro: less_SucI)
qed

lemma map_fst_zip_upt: "map fst (zip hs [n ..< n + length hs]) = hs"
  by (simp add: map_fst_zip)

lemma handles_inv_imageProcessorOnMessage:
  assumes "handles_inv s"
  shows "handles_inv (imageProcessorOnMessage result s)"
proof (cases "Map_get (imageProcessorHandles s) (messageID result)")
  case None
  then show ?thesis using assms by (simp add: imageProcessorOnMessage_None)
next
  case (Some hs)
  let ?s' = "imageProcessorOnMessage result s"
  have d: "distinct (concat (map snd (imageProcessorHandles s)))"
    using assms by (simp add: handles_inv_def waiters_def)
  note th = take_handles [OF Some d]
  have sf: "map fst (settled ?s') = map fst (settled s) @ hs"
    by (simp add: imageProcessorOnMessage_Some [OF Some] map_fst_zip del: upt_Suc)
  have wf: "waiters ?s' = concat (map snd (Map_delete (imageProcessorHandles s) (messageID result)))"
    by (simp add: imageProcessorOnMessage_Some [OF Some] waiters_def)
  have pf: "promises ?s' = promises s"
    by (simp add: imageProcessorOnMessage_Some [OF Some])
  have i: "distinct (concat (map snd (imageProcessorHandles s)))"
    "distinct (map fst (settled s))"
    "set (concat (map snd (imageProcessorHandles s))) \<inter> set (map fst (settled s)) = {}"
    "\<forall>p\<in>set (concat (map snd (imageProcessorHandles s))) \<union> set (map fst (settled s)).
        p < promises s"
    using assms unfolding handles_inv_def waiters_def list_all_iff distinct_append set_append
    by blast+
  show ?thesis
    unfolding handles_inv_def sf wf pf list_all_iff distinct_append set_append
    using i th by blast
qed

lemma handles_inv_imageProcessorOnError:
  assumes "handles_inv s"
  shows "handles_inv (imageProcessorOnError s)"
proof -
  let ?s' = "imageProcessorOnError s"
  have sf: "map fst (settled ?s') = map fst (settled s) @ waiters s"
    by (simp add: imageProcessorOnError_def onError_entries_eq map_fst_zip waiters_def)
  have wf: "waiters ?s' = []"
    by (simp add: imageProcessorOnError_def onError_entries_eq waiters_def
          filter_not_in_own_keys)
  have pf: "promises ?s' = promises s"
    by (simp add: imageProcessorOnError_def onError_entries_eq)
  show ?thesis
    unfolding handles_inv_def sf wf pf
    using assms unfolding handles_inv_def list_all_iff
    by auto
qed

lemma handles_inv_frame:
  "imageProcessorHandles s' = imageProcessorHandles s \<Longrightarrow> settled s' = settled s \<Longrightarrow>
   promises s' = promises s \<Longrightarrow> handles_inv s' = handles_inv s"
  by (simp add: handles_inv_def waiters_def)

lemma handles_inv_deinitializeImageProcessor:
  "handles_inv (deinitializeImageProcessor s) = handles_inv s"
  by (rule handles_inv_frame)
     (simp_all add: deinitializeImageProcessor_def setTimeout_def split: option.splits)

lemma handles_inv_clearTimeout: "handles_inv (clearTimeout t s) = handles_inv s"
  by (rule handles_inv_frame) (simp_all add: clearTimeout_def)

lemma handles_inv_timer_fires: "handles_inv (timer_fires t s) = handles_inv s"
  by (simp add: timer_fires_def handles_inv_deinitializeImageProcessor handles_inv_clearTimeout)

lemma handles_inv_terminate_settled: "handles_inv (terminate_settled s) = handles_inv s"
  by (rule handles_inv_frame) (simp_all add: terminate_settled_def)

lemma surfProtocolHandleImages_state:
  "snd (snd (surfProtocolHandleImages P url rid img dir (w, s))) = s \<or>
   snd (snd (surfProtocolHandleImages P url rid img dir (w, s))) =
     snd (processImageWithWorker
            (case imageProcessor s of None \<Rightarrow> workers s | Some u \<Rightarrow> u)
            \<lparr>quality = quality (extractImageOptions url),
             maxDimension = maxDimension (extractImageOptions url),
             imgPath = img,
             savePath = generateCachedPath (join P) rid dir (extractImageOptions url)\<rparr>
            (case imageProcessor s of
               None \<Rightarrow> s\<lparr>imageProcessor := Some (workers s), workers := Suc (workers s),
                          listening := listening s @ [workers s]\<rparr>
             | Some u \<Rightarrow> s))"
  by (auto simp: surfProtocolHandleImages_def initializeImageProcessor_def Let_def
        split: prod.splits sum.splits option.splits bool.splits)

lemma handles_inv_step:
  assumes "handles_inv (snd ws)"
  shows "handles_inv (snd (step P ws e))"
proof -
  obtain w s where ws: "ws = (w, s)" by (cases ws)
  have s: "handles_inv s" using assms by (simp add: ws)
  show ?thesis
  proof (cases e)
    case (Request url rid img dir)
    let ?s0 = "case imageProcessor s of
                 None \<Rightarrow> s\<lparr>imageProcessor := Some (workers s), workers := Suc (workers s),
                            listening := listening s @ [workers s]\<rparr>
               | Some u \<Rightarrow> s"
    have "handles_inv ?s0 = handles_inv s"
      by (rule handles_inv_frame) (simp_all split: option.splits)
    then have "handles_inv ?s0" using s by simp
    then show ?thesis
      using surfProtocolHandleImages_state [of P url rid img dir w s] s
        handles_inv_processImageWithWorker [of ?s0]
      by (auto simp: ws Request)
  next
    case (WorkerMessage result)
    then show ?thesis using s by (simp add: ws handles_inv_imageProcessorOnMessage)
  next
    case WorkerError
    then show ?thesis using s by (simp add: ws handles_inv_imageProcessorOnError)
  next
    case (TimerFires t)
    then show ?thesis using s by (simp add: ws handles_inv_timer_fires)
  next
    case TerminateSettled
    then show ?thesis using s by (simp add: ws handles_inv_terminate_settled)
  next
    case (FileWritten p c)
    then show ?thesis using s by (simp add: ws)
  qed
qed

lemma handles_inv_run: "handles_inv (snd ws) \<Longrightarrow> handles_inv (snd (run P evs ws))"
  unfolding run_def by (induction evs arbitrary: ws) (simp_all add: handles_inv_step)

text \<open>
  C10. A message whose id has no entry in the map of handles changes nothing; after a
  message the entry of its id is gone, and after a fatal error the map is empty, so a
  message that arrives after the fatal error changes nothing; and in every run of the
  module from its initial state no promise is resolved twice.
\<close>

theorem resolved_at_most_once:
  "(Map_get (imageProcessorHandles s) (messageID result) = None \<longrightarrow>
      imageProcessorOnMessage result s = s) \<and>
   Map_get (imageProcessorHandles (imageProcessorOnMessage result s)) (messageID result) = None \<and>
   imageProcessorHandles (imageProcessorOnError s) = [] \<and>
   imageProcessorOnMessage result (imageProcessorOnError s) = imageProcessorOnError s \<and>
   distinct (map fst (settled (snd (run P evs (w, initial_state)))))"
proof -
  have a: "Map_get (imageProcessorHandles s) (messageID result) = None \<longrightarrow>
      imageProcessorOnMessage result s = s"
    by (simp add: imageProcessorOnMessage_None)
  have b: "Map_get (imageProcessorHandles (imageProcessorOnMessage result s)) (messageID result) = None"
  proof (cases "Map_get (imageProcessorHandles s) (messageID result)")
    case None
    then show ?thesis by (simp add: imageProcessorOnMessage_None)
  next
    case (Some hs)
    show ?thesis by (simp add: imageProcessorOnMessage_Some [OF Some] Map_get_Map_delete)
  qed
  have c: "imageProcessorHandles (imageProcessorOnError s) = []"
    by (simp add: imageProcessorOnError_def onError_entries_eq filter_not_in_own_keys)
  have d: "imageProcessorOnMessage result (imageProcessorOnError s) = imageProcessorOnError s"
    by (rule imageProcessorOnMessage_None) (simp add: c Map_get_def)
  have "handles_inv (snd (run P evs (w, initial_state)))"
    by (rule handles_inv_run) (simp add: handles_inv_initial)
  then have e: "distinct (map fst (settled (snd (run P evs (w, initial_state)))))"
    by (simp add: handles_inv_def)
  show ?thesis using a b c d e by blast
qed

theorem resolved_at_most_once_witness:
  "Map_get (imageProcessorHandles initial_state)
     (messageID \<lparr>messageID = ''/r/1'', success = True, buffer = ''b'', error = None\<rparr>) = None \<and>
   imageProcessorOnMessage \<lparr>messageID = ''/r/1'', success = True, buffer = ''b'', error = None\<rparr>
     initial_state = initial_state"
proof -
  have h: "Map_get (imageProcessorHandles initial_state)
     (messageID \<lparr>messageID = ''/r/1'', success = True, buffer = ''b'', error = None\<rparr>) = None"
    by (simp add: initial_state_def Map_get_def)
  show ?thesis
    using h resolved_at_most_once
      [of initial_state "\<lparr>messageID = ''/r/1'', success = True, buffer = ''b'', error = None\<rparr>"]
    by blast
qed

subsection \<open>The teardown of the worker\<close>

lemma terminated_processImageWithWorker:
  "terminated (snd (processImageWithWorker v p s)) = terminated s"
  by (simp add: processImageWithWorker_eq)

lemma terminated_surfProtocolHandleImages:
  "terminated (snd (snd (surfProtocolHandleImages P url rid img dir (w, s)))) = terminated s"
  using surfProtocolHandleImages_state [of P url rid img dir w s]
  by (auto simp: terminated_processImageWithWorker split: option.splits)

text \<open>
  The guard of the teardown, one event at a time. Whatever happens to the module,
  \<^verbatim>\<open>terminate()\<close> is called on the worker in one case only: a pending timer expires
  while the map of handles is empty and the variable \<^verbatim>\<open>imageProcessor\<close> is set. When a
  pending timer expires while the map is not empty and the variable is set, a new timer
  with the same delay of 10000 ms is armed instead and becomes the teardown timer; when
  the variable is \<^verbatim>\<open>null\<close>, the expiry does nothing. Every submission removes the current
  teardown timer from the pending ones and arms a new one of 10000 ms.
\<close>

lemma teardown_deferred_while_busy:
  "terminated (snd (step P (w, s) e)) =
     (case e of
        TimerFires t \<Rightarrow>
          (case imageProcessor s of
             None \<Rightarrow> terminated s
           | Some v \<Rightarrow>
               if t \<in> fst ` set (timers s) \<and> imageProcessorHandles s = []
               then terminated s @ [v] else terminated s)
      | _ \<Rightarrow> terminated s) \<and>
   (timers (timer_fires t s), imageProcessorDeinitTimeout (timer_fires t s)) =
     (if t \<in> fst ` set (timers s)
      then (case imageProcessor s of
              None \<Rightarrow> (filter (\<lambda>e. fst e \<noteq> t) (timers s), imageProcessorDeinitTimeout s)
            | Some v \<Rightarrow>
                if imageProcessorHandles s \<noteq> []
                then (filter (\<lambda>e. fst e \<noteq> t) (timers s) @ [(timersCreated s, 10000)],
                      Some (timersCreated s))
                else (filter (\<lambda>e. fst e \<noteq> t) (timers s), None))
      else (timers s, imageProcessorDeinitTimeout s)) \<and>
   timers (snd (processImageWithWorker v p s)) =
     filter (\<lambda>e. Some (fst e) \<noteq> imageProcessorDeinitTimeout s) (timers s)
       @ [(timersCreated s, 10000)] \<and>
   imageProcessorDeinitTimeout (snd (processImageWithWorker v p s)) = Some (timersCreated s)"
proof -
  have a: "terminated (snd (step P (w, s) e)) =
     (case e of
        TimerFires t \<Rightarrow>
          (case imageProcessor s of
             None \<Rightarrow> terminated s
           | Some v \<Rightarrow>
               if t \<in> fst ` set (timers s) \<and> imageProcessorHandles s = []
               then terminated s @ [v] else terminated s)
      | _ \<Rightarrow> terminated s)"
  proof (cases e)
    case (Request url rid img dir)
    then show ?thesis by (simp add: terminated_surfProtocolHandleImages)
  next
    case (WorkerMessage result)
    show ?thesis
      by (cases "Map_get (imageProcessorHandles s) (messageID result)")
         (simp_all add: WorkerMessage imageProcessorOnMessage_None imageProcessorOnMessage_Some)
  next
    case WorkerError
    then show ?thesis by (simp add: imageProcessorOnError_def onError_entries_eq)
  next
    case (TimerFires t)
    then show ?thesis
      by (simp add: timer_fires_def deinitializeImageProcessor_def clearTimeout_def
            setTimeout_def split: option.splits)
  next
    case TerminateSettled
    then show ?thesis by (simp add: terminate_settled_def)
  next
    case (FileWritten p c)
    then show ?thesis by simp
  qed
  have b: "(timers (timer_fires t s), imageProcessorDeinitTimeout (timer_fires t s)) =
     (if t \<in> fst ` set (timers s)
      then (case imageProcessor s of
              None \<Rightarrow> (filter (\<lambda>e. fst e \<noteq> t) (timers s), imageProcessorDeinitTimeout s)
            | Some v \<Rightarrow>
                if imageProcessorHandles s \<noteq> []
                then (filter (\<lambda>e. fst e \<noteq> t) (timers s) @ [(timersCreated s, 10000)],
                      Some (timersCreated s))
                else (filter (\<lambda>e. fst e \<noteq> t) (timers s), None))
      else (timers s, imageProcessorDeinitTimeout s))"
    by (simp add: timer_fires_def deinitializeImageProcessor_def clearTimeout_def
          setTimeout_def split: option.splits)
  show ?thesis using a b by (simp add: processImageWithWorker_eq)
qed

text \<open>
  C8. The claim fails in a run of the module, because the variable \<^verbatim>\<open>imageProcessor\<close>
  is reset only when the promise of \<^verbatim>\<open>terminate()\<close> settles. A request is served by
  worker 0 and its job completes; the teardown timer 0 expires on the empty map and
  \<^verbatim>\<open>terminate()\<close> is called on worker 0, the variable still holding it. A second
  request arrives before the promise settles: no worker is started, its job is posted to
  worker 0 and waits in the map. The promise settles, and timer 1 then expires on a map
  that is not empty: nothing is re-armed, and the promise of the second request is never
  resolved.
\<close>

theorem teardown_race:
  "terminated (snd (run test_platform
      [Request ''surf://surf/resource/1?raw&quality=1'' ''1'' ''/r/1'' ''/c'',
       WorkerMessage \<lparr>messageID = ''/r/1'', success = True, buffer = ''b'', error = None\<rparr>,
       TimerFires 0] (empty_world, initial_state))) = [0] \<and>
   imageProcessor (snd (run test_platform
      [Request ''surf://surf/resource/1?raw&quality=1'' ''1'' ''/r/1'' ''/c'',
       WorkerMessage \<lparr>messageID = ''/r/1'', success = True, buffer = ''b'', error = None\<rparr>,
       TimerFires 0] (empty_world, initial_state))) = Some 0 \<and>
   map (\<lambda>e. (fst e, jobID (snd e))) (posted (snd (run test_platform
      [Request ''surf://surf/resource/1?raw&quality=1'' ''1'' ''/r/1'' ''/c'',
       WorkerMessage \<lparr>messageID = ''/r/1'', success = True, buffer = ''b'', error = None\<rparr>,
       TimerFires 0,
       Request ''surf://surf/resource/2?raw&quality=1'' ''2'' ''/r/2'' ''/c'']
      (empty_world, initial_state)))) = [(0, ''/r/1''), (0, ''/r/2'')] \<and>
   imageProcessorHandles (snd (run test_platform
      [Request ''surf://surf/resource/1?raw&quality=1'' ''1'' ''/r/1'' ''/c'',
       WorkerMessage \<lparr>messageID = ''/r/1'', success = True, buffer = ''b'', error = None\<rparr>,
       TimerFires 0,
       Request ''surf://surf/resource/2?raw&quality=1'' ''2'' ''/r/2'' ''/c'']
      (empty_world, initial_state))) = [(''/r/2'', [1])] \<and>
   timers (snd (run test_platform
      [Request ''surf://surf/resource/1?raw&quality=1'' ''1'' ''/r/1'' ''/c'',
       WorkerMessage \<lparr>messageID = ''/r/1'', success = True, buffer = ''b'', error = None\<rparr>,
       TimerFires 0,
       Request ''surf://surf/resource/2?raw&quality=1'' ''2'' ''/r/2'' ''/c'',
       TerminateSettled]
      (empty_world, initial_state))) = [(1, 10000)] \<and>
   imageProcessorHandles (snd (run test_platform
      [Request ''surf://surf/resource/1?raw&quality=1'' ''1'' ''/r/1'' ''/c'',
       WorkerMessage \<lparr>messageID = ''/r/1'', success = True, buffer = ''b'', error = None\<rparr>,
       TimerFires 0,
       Request ''surf://surf/resource/2?raw&quality=1'' ''2'' ''/r/2'' ''/c'',
       TerminateSettled,
       TimerFires 1]
      (empty_world, initial_state))) = [(''/r/2'', [1])] \<and>
   timers (snd (run test_platform
      [Request ''surf://surf/resource/1?raw&quality=1'' ''1'' ''/r/1'' ''/c'',
       WorkerMessage \<lparr>messageID = ''/r/1'', success = True, buffer = ''b'', error = None\<rparr>,
       TimerFires 0,
       Request ''surf://surf/resource/2?raw&quality=1'' ''2'' ''/r/2'' ''/c'',
       TerminateSettled,
       TimerFires 1]
      (empty_world, initial_state))) = [] \<and>
   map fst (settled (snd (run test_platform
      [Request ''surf://surf/resource/1?raw&quality=1'' ''1'' ''/r/1'' ''/c'',
       WorkerMessage \<lparr>messageID = ''/r/1'', success = True, buffer = ''b'', error = None\<rparr>,
       TimerFires 0,
       Request ''surf://surf/resource/2?raw&quality=1'' ''2'' ''/r/2'' ''/c'',
       TerminateSettled,
       TimerFires 1]
      (empty_world, initial_state)))) = [0]"
  by code_simp

subsection \<open>The locator\<close>

text \<open>
  What \<^verbatim>\<open>fetchFilePath\<close> and the migration do, in terms of the files: a path yields a
  result exactly when it resolves, and the migration throws, asks and moves as
  \<open>migration_throws\<close>, \<open>migration_ops\<close> and the rename say.
\<close>

lemma resolves_ops [simp]: "resolves P b (w\<lparr>ops := x\<rparr>) p = resolves P b w p"
  by (simp add: resolves_def is_file_def)

lemma answer_ops [simp]: "answer P b (w\<lparr>ops := x\<rparr>) p = answer P b w p"
  by (simp add: answer_def)

lemma rename_throws_ops [simp]: "rename_throws P (w\<lparr>ops := x\<rparr>) a c = rename_throws P w a c"
  by (simp add: rename_throws_def)

lemma migration_throws_ops [simp]:
  "migration_throws P (w\<lparr>ops := x\<rparr>) res a c = migration_throws P w res a c"
  by (simp add: migration_throws_def)

lemma migration_ops_ops [simp]:
  "migration_ops P (w\<lparr>ops := x\<rparr>) res a c = migration_ops P w res a c"
  by (simp add: migration_ops_def)

lemma fetchFilePath_eq:
  "fetchFilePath P b p w =
     (if resolves P b w p then Some (answer P b w p) else None,
      w\<lparr>ops := ops w @ fetch_ops P b p\<rparr>)"
  by (auto simp: fetchFilePath_def net_fetch_def record_op_def resolves_def answer_def
        is_file_def fetch_ops_def split: option.splits entry.splits)

lemma migrate_then_eq:
  "(case migrateResourceFile P src dst res w of
      (Inl e, w1) \<Rightarrow> (not_found P rid, record_op (LogError e) w1)
    | (Inr u, w1) \<Rightarrow> (result, w1)) = (x, w') \<Longrightarrow>
   x = (if migration_throws P w res src dst then not_found P rid else result) \<and>
   ops w' = ops w @ migration_ops P w res src dst \<and>
   files w' = (if src \<noteq> dst \<and> \<not> rename_throws P w src dst
               then (files w)(src := None, dst := files w src) else files w)"
  by (auto simp: migrateResourceFile_def rename_def updateResource_def record_op_def
        migration_throws_def rename_throws_def update_throws_def migration_ops_def
        raw_record_def
        split: option.splits if_splits)

lemma mig_fst:
  "fst (case migrateResourceFile P src dst res w of
      (Inl e, w1) \<Rightarrow> (not_found P rid, record_op (LogError e) w1)
    | (Inr u, w1) \<Rightarrow> (result, w1)) =
   (if migration_throws P w res src dst then not_found P rid else result)"
  using migrate_then_eq [OF surjective_pairing] by blast

lemma mig_ops:
  "ops (snd (case migrateResourceFile P src dst res w of
      (Inl e, w1) \<Rightarrow> (not_found P rid, record_op (LogError e) w1)
    | (Inr u, w1) \<Rightarrow> (result, w1))) =
   ops w @ migration_ops P w res src dst"
  using migrate_then_eq [OF surjective_pairing] by blast

lemma mig_files:
  "files (snd (case migrateResourceFile P src dst res w of
      (Inl e, w1) \<Rightarrow> (not_found P rid, record_op (LogError e) w1)
    | (Inr u, w1) \<Rightarrow> (result, w1))) =
   (if src \<noteq> dst \<and> \<not> rename_throws P w src dst
    then (files w)(src := None, dst := files w src) else files w)"
  using migrate_then_eq [OF surjective_pairing] by blast

lemma fetchResourceFile_unfold:
  "fetchResourceFile P rid res w =
     (case (case res of
              None \<Rightarrow> (None, w)
            | Some r \<Rightarrow>
                if path r \<noteq> [] \<and>
                   (endsWith (path r) (''.'' @ getResourceFileExtension P (type' r)) \<or>
                    endsWith (path r) ''.json'')
                then fetchFilePath P (resources_base P) (path r) w
                else (None, w)) of
        (Some result, w1) \<Rightarrow> (result, w1)
      | (None, w1) \<Rightarrow>
          (case fetchFilePath P (resources_base P) (newFilePath_of P rid res) w1 of
             (Some result, w2) \<Rightarrow>
               if map_option path res \<noteq> Some (newFilePath_of P rid res)
               then (case migrateResourceFile P (newFilePath_of P rid res)
                             (newFilePath_of P rid res) res w2 of
                       (Inl e, w3) \<Rightarrow> (not_found P rid, record_op (LogError e) w3)
                     | (Inr u, w3) \<Rightarrow> (result, w3))
               else (result, w2)
           | (None, w2) \<Rightarrow>
               (case fetchFilePath P (resources_base P) (join P (resources_base P) rid) w2 of
                  (Some result, w3) \<Rightarrow>
                    (case migrateResourceFile P (join P (resources_base P) rid)
                             (newFilePath_of P rid res) res w3 of
                       (Inl e, w4) \<Rightarrow> (not_found P rid, record_op (LogError e) w4)
                     | (Inr u, w4) \<Rightarrow> (result, w4))
                | (None, w3) \<Rightarrow> (not_found P rid, w3))))"
  by (cases res)
     (simp_all add: fetchResourceFile_def fetchResourceFile_try_def Let_def
        split: prod.splits option.splits sum.splits)

lemma fetchResourceFile_spec:
  assumes b: "b = join P (join P (userData P) ''sffs_backend'') ''resources''"
    and ext: "ext = (case resource of None \<Rightarrow> [] | Some r \<Rightarrow> getResourceFileExtension P (type' r))"
    and sp: "sp = (case resource of None \<Rightarrow> [] | Some r \<Rightarrow> path r)"
    and stored: "stored = (resource \<noteq> None \<and> sp \<noteq> [] \<and>
                            (endsWith sp (''.'' @ ext) \<or> endsWith sp ''.json''))"
    and cur: "cur = join P b (case resource of
                                None \<Rightarrow> rid
                              | Some r \<Rightarrow> if ext \<noteq> [] then getResourceFileName P r @ ''.'' @ ext
                                          else rid)"
    and leg: "leg = join P b rid"
    and nf: "nf = \<lparr>response = text_response ''Not Found'' 404, filePath = leg, base = b\<rparr>"
  shows "fst (fetchResourceFile P rid resource w) =
           (if stored \<and> resolves P b w sp then answer P b w sp
            else if resolves P b w cur
            then (if sp \<noteq> cur \<and> migration_throws P w resource cur cur then nf
                  else answer P b w cur)
            else if resolves P b w leg
            then (if migration_throws P w resource leg cur then nf else answer P b w leg)
            else nf) \<and>
         ops (snd (fetchResourceFile P rid resource w)) =
           ops w @
           (if stored then fetch_ops P b sp else []) @
           (if stored \<and> resolves P b w sp then []
            else fetch_ops P b cur @
                 (if resolves P b w cur
                  then (if sp \<noteq> cur then migration_ops P w resource cur cur else [])
                  else fetch_ops P b leg @
                       (if resolves P b w leg then migration_ops P w resource leg cur
                        else []))) \<and>
         files (snd (fetchResourceFile P rid resource w)) =
           (if \<not> (stored \<and> resolves P b w sp) \<and> \<not> resolves P b w cur \<and>
               resolves P b w leg \<and> \<not> rename_throws P w leg cur
            then (files w)(leg := None, cur := files w leg) else files w)"
proof -
  let ?B = "resources_base P"
  let ?new = "newFilePath_of P rid resource"
  let ?leg = "join P (resources_base P) rid"
  have B: "?B = b" by (simp add: resources_base_def b)
  have N: "?new = cur" by (cases resource) (simp_all add: newFilePath_of_def B cur ext)
  have L: "join P b rid = leg" by (simp add: leg)
  have NF: "not_found P rid = nf" by (simp add: not_found_def B nf leg)
  have D: "(map_option path resource \<noteq> Some cur) =
           (resource = None \<or> sp \<noteq> cur)"
    by (cases resource) (simp_all add: sp)
  have NoRec: "resource = None \<Longrightarrow> \<not> migration_throws P v None cur cur \<and>
                 migration_ops P v None cur cur = []" for v
    by (simp add: migration_throws_def rename_throws_def update_throws_def migration_ops_def)
  have RT [simp]: "\<not> rename_throws P v cur cur" for v
    by (simp add: rename_throws_def)
  have LC: "resolves P b w leg \<Longrightarrow> \<not> resolves P b w cur \<Longrightarrow> leg \<noteq> cur"
    by auto
  have S1: "(case resource of
              None \<Rightarrow> (None, w)
            | Some r \<Rightarrow>
                if path r \<noteq> [] \<and>
                   (endsWith (path r) (''.'' @ getResourceFileExtension P (type' r)) \<or>
                    endsWith (path r) ''.json'')
                then fetchFilePath P b (path r) w
                else (None, w)) =
            (if stored \<and> resolves P b w sp then Some (answer P b w sp) else None,
             w\<lparr>ops := ops w @ (if stored then fetch_ops P b sp else [])\<rparr>)"
    by (cases resource) (simp_all add: stored sp ext fetchFilePath_eq)
  let ?w1 = "w\<lparr>ops := ops w @ (if stored then fetch_ops P b sp else [])\<rparr>"
  show ?thesis
  proof (cases "stored \<and> resolves P b w sp")
    case True
    then show ?thesis
      unfolding fetchResourceFile_unfold S1 N L B by auto
  next
    case nA: False
    show ?thesis
    proof (cases "resolves P b w cur")
      case True
      show ?thesis
      proof (cases "resource = None \<or> sp \<noteq> cur")
        case mig: True
        have D1: "\<not> (\<exists>z. resource = Some z \<and> path z = cur)"
          using mig by (cases resource) (auto simp: sp)
        have e: "fetchResourceFile P rid resource w =
                 (case migrateResourceFile P cur cur resource (?w1\<lparr>ops := ops ?w1 @ fetch_ops P b cur\<rparr>) of
                       (Inl e, w3) \<Rightarrow> (not_found P rid, record_op (LogError e) w3)
                     | (Inr u, w3) \<Rightarrow> (answer P b w cur, w3))"
          unfolding fetchResourceFile_unfold S1 N L B
          using nA True D1 by (auto simp: fetchFilePath_eq)
        show ?thesis
        proof (cases "resource = None")
          case True
          then show ?thesis
            unfolding e mig_fst mig_ops mig_files using nA \<open>resolves P b w cur\<close> NoRec [of w]
            by (auto simp: NF)
        next
          case False
          then have "sp \<noteq> cur" using mig by blast
          then show ?thesis
            unfolding e mig_fst mig_ops mig_files using nA \<open>resolves P b w cur\<close>
            by (auto simp: NF)
        qed
      next
        case False
        then have D2: "\<exists>z. resource = Some z \<and> path z = cur" and "sp = cur"
          by (cases resource; auto simp: sp)+
        then show ?thesis
          unfolding fetchResourceFile_unfold S1 N L B
          using nA True by (auto simp: fetchFilePath_eq)
      qed
    next
      case nB: False
      show ?thesis
      proof (cases "resolves P b w leg")
        case True
        have e: "fetchResourceFile P rid resource w =
                 (case migrateResourceFile P leg cur resource
                         (?w1\<lparr>ops := ops ?w1 @ fetch_ops P b cur @ fetch_ops P b leg\<rparr>) of
                       (Inl e, w3) \<Rightarrow> (not_found P rid, record_op (LogError e) w3)
                     | (Inr u, w3) \<Rightarrow> (answer P b w leg, w3))"
          unfolding fetchResourceFile_unfold S1 N L B
          using nA nB True by (auto simp: fetchFilePath_eq)
        show ?thesis
          unfolding e mig_fst mig_ops mig_files using nA nB True LC by (auto simp: NF)
      next
        case False
        then show ?thesis
          unfolding fetchResourceFile_unfold S1 N L B
          using nA nB by (auto simp: fetchFilePath_eq NF)
      qed
    qed
  qed
qed

lemma filter_rename_fetch_ops: "filter is_rename (fetch_ops P b p) = []"
  by (simp add: fetch_ops_def)

lemma filter_rename_migration_ops:
  "filter is_rename (migration_ops P w res a c) = (if a \<noteq> c then [Rename a c] else [])"
  by (simp add: migration_ops_def split: option.splits)


text \<open>
  C5 (amended). For every resource id and optional record, the locator tries the
  candidate paths in this order and stops at the first that resolves, a path resolving
  when it is rejected as unsafe or a file is read at it:
  (1) the record's stored path, tried only if it is not empty and ends in the extension
  of the record's kind or in \<^verbatim>\<open>.json\<close>;
  (2) the current-scheme path: the base directory joined with the file name, a dot and
  the extension when there is a record whose kind has an extension, and with the bare
  resource id otherwise; a success here triggers a migration from this path to itself
  (no rename, the update of the record) unless the record already stores this path;
  (3) the legacy path, the base directory joined with the bare resource id, whose
  success triggers the migration that renames the legacy file to the current-scheme
  path and then updates the record.
  The answer at the path that resolves is 403 Forbidden when the path is unsafe (it is
  then not read, and no later candidate is tried) and the bytes of the file otherwise; a
  call whose migration throws answers 404 Not Found instead; and when no candidate
  resolves the answer is 404 Not Found. The trace holds exactly the fetches of the safe
  candidates up to the one that resolves, then what the migration asks and logs; the
  files change only by the rename of step (3).
\<close>

theorem locator_order:
  assumes b: "b = join P (join P (userData P) ''sffs_backend'') ''resources''"
    and ext: "ext = (case resource of None \<Rightarrow> [] | Some r \<Rightarrow> getResourceFileExtension P (type' r))"
    and sp: "sp = (case resource of None \<Rightarrow> [] | Some r \<Rightarrow> path r)"
    and stored: "stored = (resource \<noteq> None \<and> sp \<noteq> [] \<and>
                            (endsWith sp (''.'' @ ext) \<or> endsWith sp ''.json''))"
    and cur: "cur = join P b (case resource of
                                None \<Rightarrow> rid
                              | Some r \<Rightarrow> if ext \<noteq> [] then getResourceFileName P r @ ''.'' @ ext
                                          else rid)"
    and leg: "leg = join P b rid"
    and nf: "nf = \<lparr>response = text_response ''Not Found'' 404, filePath = leg, base = b\<rparr>"
  shows "fst (fetchResourceFile P rid resource w) =
           (if stored \<and> resolves P b w sp then answer P b w sp
            else if resolves P b w cur
            then (if sp \<noteq> cur \<and> migration_throws P w resource cur cur then nf
                  else answer P b w cur)
            else if resolves P b w leg
            then (if migration_throws P w resource leg cur then nf else answer P b w leg)
            else nf) \<and>
         ops (snd (fetchResourceFile P rid resource w)) =
           ops w @
           (if stored then fetch_ops P b sp else []) @
           (if stored \<and> resolves P b w sp then []
            else fetch_ops P b cur @
                 (if resolves P b w cur
                  then (if sp \<noteq> cur then migration_ops P w resource cur cur else [])
                  else fetch_ops P b leg @
                       (if resolves P b w leg then migration_ops P w resource leg cur
                        else []))) \<and>
         files (snd (fetchResourceFile P rid resource w)) =
           (if \<not> (stored \<and> resolves P b w sp) \<and> \<not> resolves P b w cur \<and>
               resolves P b w leg \<and> \<not> rename_throws P w leg cur
            then (files w)(leg := None, cur := files w leg) else files w)"
  using assms by (rule fetchResourceFile_spec)

theorem locator_order_witness:
  "fst (fetchResourceFile test_platform ''1'' (Some image_record) legacy_world) =
     \<lparr>response = \<lparr>status = 200, body = ''x'', headers = []\<rparr>,
      filePath = ''/u/sffs_backend/resources/1'', base = ''/u/sffs_backend/resources''\<rparr> \<and>
   ops (snd (fetchResourceFile test_platform ''1'' (Some image_record) legacy_world)) =
     [Fetch ''/u/sffs_backend/resources/1.png'',
      Fetch ''/u/sffs_backend/resources/1'',
      Rename ''/u/sffs_backend/resources/1'' ''/u/sffs_backend/resources/1.png'',
      Update (raw_record image_record ''/u/sffs_backend/resources/1.png'')] \<and>
   files (snd (fetchResourceFile test_platform ''1'' (Some image_record) legacy_world))
     ''/u/sffs_backend/resources/1.png'' = Some (File ''x'') \<and>
   files (snd (fetchResourceFile test_platform ''1'' (Some image_record) legacy_world))
     ''/u/sffs_backend/resources/1'' = None"
proof -
  note t = locator_order [OF refl refl refl refl refl refl refl,
      where P = test_platform and rid = "''1''" and resource = "Some image_record"
        and w = legacy_world]
  have a: "fst (fetchResourceFile test_platform ''1'' (Some image_record) legacy_world) =
     \<lparr>response = \<lparr>status = 200, body = ''x'', headers = []\<rparr>,
      filePath = ''/u/sffs_backend/resources/1'', base = ''/u/sffs_backend/resources''\<rparr>"
    by (subst t [THEN conjunct1]) code_simp
  have b: "ops (snd (fetchResourceFile test_platform ''1'' (Some image_record) legacy_world)) =
     [Fetch ''/u/sffs_backend/resources/1.png'',
      Fetch ''/u/sffs_backend/resources/1'',
      Rename ''/u/sffs_backend/resources/1'' ''/u/sffs_backend/resources/1.png'',
      Update (raw_record image_record ''/u/sffs_backend/resources/1.png'')]"
    by (subst t [THEN conjunct2, THEN conjunct1]) code_simp
  have c: "files (snd (fetchResourceFile test_platform ''1'' (Some image_record) legacy_world))
     ''/u/sffs_backend/resources/1.png'' = Some (File ''x'')"
    by (subst t [THEN conjunct2, THEN conjunct2]) code_simp
  have d: "files (snd (fetchResourceFile test_platform ''1'' (Some image_record) legacy_world))
     ''/u/sffs_backend/resources/1'' = None"
    by (subst t [THEN conjunct2, THEN conjunct2]) code_simp
  show ?thesis using a b c d by blast
qed


text \<open>
  C5 as stated fails. The stored path of the record of resource \<^verbatim>\<open>1\<close> is rejected as
  unsafe: the call answers 403 Forbidden and reads nothing, although the file lies at
  the current-scheme path, the next candidate. And where the file of resource \<^verbatim>\<open>1\<close>
  lies at the legacy path and the rename of the migration fails, the legacy path
  resolves and yet the call answers 404 Not Found.
\<close>

theorem forbidden_stored_path_counterexample:
  "files current_world (newFilePath_of guarding_platform ''1'' (Some outside_record)) =
     Some (File ''x'') \<and>
   fst (fetchResourceFile guarding_platform ''1'' (Some outside_record) current_world) =
     \<lparr>response = text_response ''Forbidden'' 403, filePath = ''/x/1.png'',
      base = ''/u/sffs_backend/resources''\<rparr> \<and>
   ops (snd (fetchResourceFile guarding_platform ''1'' (Some outside_record) current_world)) = [] \<and>
   files legacy_world (join failing_rename_platform (resources_base failing_rename_platform) ''1'') =
     Some (File ''x'') \<and>
   response (fst (fetchResourceFile failing_rename_platform ''1'' (Some image_record) legacy_world)) =
     text_response ''Not Found'' 404"
  by code_simp

lemma fetchResourceFile_try_first_found:
  "fetchResourceFile_try P rid res w =
     (case first_found P (resources_base P) (candidates P rid res) w of
        (None, w1) \<Rightarrow> (Inr (not_found P rid), w1)
      | (Some (n, result), w1) \<Rightarrow>
          if n = 1 \<or> (n = 2 \<and> map_option path res = Some (newFilePath_of P rid res))
          then (Inr result, w1)
          else (case migrateResourceFile P
                       (if n = 2 then newFilePath_of P rid res
                        else join P (resources_base P) rid)
                       (newFilePath_of P rid res) res w1 of
                  (Inl e, w2) \<Rightarrow> (Inl e, w2)
                | (Inr u, w2) \<Rightarrow> (Inr result, w2)))"
  by (cases res)
     (simp_all add: fetchResourceFile_try_def candidates_def Let_def
        split: prod.splits option.splits sum.splits)

text \<open>
  C4 (amended). When the bytes were found at the current-scheme path or at the legacy
  path, the outcome of the call depends on the migration it triggers: if the migration
  does not throw, the call reports the bytes found; if it throws, the call answers
  404 Not Found and the error is logged. The migration throws exactly when its rename
  fails (the paths differ, and the source is missing or the rename is refused) or, the
  rename done or not needed, when there is a record and a catalog whose update fails.
\<close>

theorem migration_failure_is_not_found:
  "first_found P (resources_base P) (candidates P rid res) w = (Some (n, result), w1) \<Longrightarrow>
   n \<noteq> 1 \<Longrightarrow>
   fetchResourceFile P rid res w =
     (if n = 2 \<and> map_option path res = Some (newFilePath_of P rid res) then (result, w1)
      else case migrateResourceFile P
                  (if n = 2 then newFilePath_of P rid res else join P (resources_base P) rid)
                  (newFilePath_of P rid res) res w1 of
             (Inr u, w2) \<Rightarrow> (result, w2)
           | (Inl e, w2) \<Rightarrow> (not_found P rid, record_op (LogError e) w2)) \<and>
   fst (migrateResourceFile P a b res v) =
     (if a \<noteq> b \<and> (files v a = None \<or> renameFails P a b) then Inl (RenameError a b)
      else case res of
             None \<Rightarrow> Inr ()
           | Some r \<Rightarrow>
               if sffs P \<and>
                  updateFails P
                    \<lparr>raw_id = id' r, resource_path = b, resource_type = type' r,
                     created_at = createdAt r, updated_at = updatedAt r,
                     raw_deleted = (if deleted r then 1 else 0)\<rparr>
               then Inl (UpdateError (id' r)) else Inr ())"
  by (auto simp: fetchResourceFile_def fetchResourceFile_try_first_found
        migrateResourceFile_def rename_def updateResource_def
        split: prod.splits sum.splits option.splits)

theorem migration_failure_is_not_found_witness:
  "fst (first_found test_platform (resources_base test_platform)
          (candidates test_platform ''1'' (Some image_record)) legacy_world) =
     Some (3, \<lparr>response = \<lparr>status = 200, body = ''x'', headers = []\<rparr>,
               filePath = ''/u/sffs_backend/resources/1'',
               base = ''/u/sffs_backend/resources''\<rparr>) \<and>
   (3::nat) \<noteq> 1 \<and>
   fst (fetchResourceFile test_platform ''1'' (Some image_record) legacy_world) =
     \<lparr>response = \<lparr>status = 200, body = ''x'', headers = []\<rparr>,
      filePath = ''/u/sffs_backend/resources/1'', base = ''/u/sffs_backend/resources''\<rparr>"
proof -
  let ?ff = "first_found test_platform (resources_base test_platform)
          (candidates test_platform ''1'' (Some image_record)) legacy_world"
  let ?res = "\<lparr>response = \<lparr>status = 200, body = ''x'', headers = []\<rparr>,
               filePath = ''/u/sffs_backend/resources/1'',
               base = ''/u/sffs_backend/resources''\<rparr>"
  have h: "fst ?ff = Some (3, ?res)" by code_simp
  have h1: "?ff = (Some (3, ?res), snd ?ff)" using h by (simp add: prod_eq_iff)
  have h2: "(3::nat) \<noteq> 1" by simp
  let ?m = "migrateResourceFile test_platform
              (join test_platform (resources_base test_platform) ''1'')
              (newFilePath_of test_platform ''1'' (Some image_record)) (Some image_record)
              (snd ?ff)"
  have m: "fst ?m = Inr ()" by code_simp
  have mm: "?m = (Inr (), snd ?m)" using m by (simp add: prod_eq_iff)
  note t = migration_failure_is_not_found [OF h1 h2, THEN conjunct1]
  have t': "fetchResourceFile test_platform ''1'' (Some image_record) legacy_world =
      (case ?m of
         (Inr u, w2) \<Rightarrow> (?res, w2)
       | (Inl e, w2) \<Rightarrow> (not_found test_platform ''1'', record_op (LogError e) w2))"
    using t by simp
  have "fst (fetchResourceFile test_platform ''1'' (Some image_record) legacy_world) = ?res"
    by (subst t', subst mm) simp
  then show ?thesis using h by simp
qed

text \<open>
  C4 as stated fails: the file of resource \<^verbatim>\<open>1\<close> is found at the legacy path, the
  rename of the migration fails, and the call answers 404 Not Found.
\<close>

theorem migration_failure_counterexample:
  "fst (first_found failing_rename_platform (resources_base failing_rename_platform)
          (candidates failing_rename_platform ''1'' (Some image_record)) legacy_world) =
     Some (3, \<lparr>response = \<lparr>status = 200, body = ''x'', headers = []\<rparr>,
               filePath = ''/u/sffs_backend/resources/1'',
               base = ''/u/sffs_backend/resources''\<rparr>) \<and>
   response (fst (fetchResourceFile failing_rename_platform ''1'' (Some image_record) legacy_world)) =
     text_response ''Not Found'' 404 \<and>
   ops (snd (fetchResourceFile failing_rename_platform ''1'' (Some image_record) legacy_world)) =
     [Fetch ''/u/sffs_backend/resources/1.png'',
      Fetch ''/u/sffs_backend/resources/1'',
      Rename ''/u/sffs_backend/resources/1'' ''/u/sffs_backend/resources/1.png'',
      LogError (RenameError ''/u/sffs_backend/resources/1'' ''/u/sffs_backend/resources/1.png'')]"
  by code_simp

text \<open>
  C6 (amended). Take a resource with a record, whose file lies at the legacy path, where
  the two candidates before the legacy path do not resolve (the stored path, if it is
  tried, and the current-scheme path are safe and hold no file), and whose rename is
  not refused. Then two calls of the locator, the second with the same record or with
  the record as updated, perform one rename in all: the first call renames the legacy
  file to the current-scheme path (and answers with the bytes read at the legacy path,
  or 404 Not Found if the update of the record throws); the second call finds the file
  at the current-scheme path, renames nothing and moves no file. With the updated
  record the second call performs no migration at all (it only fetches the
  current-scheme path); with the same record it asks for the update of the record
  again, and answers 404 Not Found if that update throws.
\<close>

theorem migration_once:
  assumes b: "b = join P (join P (userData P) ''sffs_backend'') ''resources''"
    and ext: "ext = getResourceFileExtension P (type' r)"
    and stored: "stored = (path r \<noteq> [] \<and>
                            (endsWith (path r) (''.'' @ ext) \<or> endsWith (path r) ''.json''))"
    and cur: "cur = join P b (if ext \<noteq> [] then getResourceFileName P r @ ''.'' @ ext else rid)"
    and leg: "leg = join P b rid"
    and H1: "files w leg = Some (File c)"
    and H2: "\<not> (stored \<and> resolves P b w (path r))"
    and H3: "\<not> resolves P b w cur"
    and H4: "\<not> renameFails P leg cur"
    and R2: "r2 = r \<or> (r2 = r\<lparr>path := cur\<rparr> \<and> getResourceFileName P r2 = getResourceFileName P r)"
    and w1: "w1 = snd (fetchResourceFile P rid (Some r) w)"
    and w2: "w2 = snd (fetchResourceFile P rid (Some r2) w1)"
  shows "fst (fetchResourceFile P rid (Some r) w) =
           (if update_throws P (Some r) cur
            then \<lparr>response = text_response ''Not Found'' 404, filePath = leg, base = b\<rparr>
            else answer P b w leg) \<and>
         renames w1 = renames w @ [Rename leg cur] \<and>
         files w1 = (files w)(leg := None, cur := Some (File c)) \<and>
         renames w2 = renames w1 \<and>
         files w2 = files w1 \<and>
         ops w2 = ops w1 @
           (if path r2 = cur then [Fetch cur]
            else (if stored then [Fetch (path r)] else []) @ [Fetch cur] @
                 migration_ops P w1 (Some r) cur cur) \<and>
         fst (fetchResourceFile P rid (Some r2) w1) =
           (if path r2 \<noteq> cur \<and> update_throws P (Some r) cur
            then \<lparr>response = text_response ''Not Found'' 404, filePath = leg, base = b\<rparr>
            else \<lparr>response = \<lparr>status = 200, body = c,
                               headers = (case mimeType P cur c of
                                            None \<Rightarrow> [] | Some t \<Rightarrow> [(''content-type'', t)])\<rparr>,
                  filePath = cur, base = b\<rparr>)"
proof -
  have lc: "leg \<noteq> cur" and sc: "isPathSafe P b cur"
    using H1 H3 by (auto simp: resolves_def is_file_def)
  have rl: "resolves P b w leg" using H1 by (simp add: resolves_def is_file_def)
  have nr: "\<not> rename_throws P w leg cur" using H1 H4 by (simp add: rename_throws_def)
  have ext1: "ext = (case Some r of None \<Rightarrow> [] | Some r \<Rightarrow> getResourceFileExtension P (type' r))"
    by (simp add: ext)
  have sp1: "path r = (case Some r of None \<Rightarrow> [] | Some r \<Rightarrow> path r)" by simp
  have stored1: "stored = (Some r \<noteq> None \<and> path r \<noteq> [] \<and>
                            (endsWith (path r) (''.'' @ ext) \<or> endsWith (path r) ''.json''))"
    by (simp add: stored)
  have cur1: "cur = join P b (case Some r of
                                None \<Rightarrow> rid
                              | Some r \<Rightarrow> if ext \<noteq> [] then getResourceFileName P r @ ''.'' @ ext
                                          else rid)"
    by (simp add: cur)
  note s1 = fetchResourceFile_spec [where resource = "Some r" and w = w,
      OF b ext1 sp1 stored1 cur1 leg refl]
  have ops1: "ops w1 = ops w @ (if stored then fetch_ops P b (path r) else []) @
                 fetch_ops P b cur @ fetch_ops P b leg @ migration_ops P w (Some r) leg cur"
    using s1 [THEN conjunct2, THEN conjunct1] H2 H3 rl
    by (simp add: w1)
  have f1: "files w1 = (files w)(leg := None, cur := Some (File c))"
    using s1 [THEN conjunct2, THEN conjunct2] H2 H3 rl nr H1
    by (simp add: w1)
  have res1: "fst (fetchResourceFile P rid (Some r) w) =
           (if update_throws P (Some r) cur
            then \<lparr>response = text_response ''Not Found'' 404, filePath = leg, base = b\<rparr>
            else answer P b w leg)"
    using s1 [THEN conjunct1] H2 H3 rl nr by (simp add: migration_throws_def)
  have r1: "renames w1 = renames w @ [Rename leg cur]"
    using lc by (simp add: renames_def ops1 filter_rename_fetch_ops filter_rename_migration_ops)
  have t2: "type' r2 = type' r" and n2: "getResourceFileName P r2 = getResourceFileName P r"
    using R2 by auto
  have rc: "resolves P b w1 cur" "is_file w1 cur"
    by (simp_all add: resolves_def is_file_def f1)
  have a1: "answer P b w1 cur =
      \<lparr>response = \<lparr>status = 200, body = c,
                     headers = (case mimeType P cur c of
                                  None \<Rightarrow> [] | Some t \<Rightarrow> [(''content-type'', t)])\<rparr>,
       filePath = cur, base = b\<rparr>"
    using sc by (simp add: answer_def f1)
  define stored2 where "stored2 = (path r2 \<noteq> [] \<and>
       (endsWith (path r2) (''.'' @ ext) \<or> endsWith (path r2) ''.json''))"
  have only: "stored2 \<and> resolves P b w1 (path r2) \<Longrightarrow> path r2 = cur"
  proof (rule ccontr)
    assume a: "stored2 \<and> resolves P b w1 (path r2)" and n: "path r2 \<noteq> cur"
    from n R2 have e: "r2 = r" by auto
    with a have st: stored by (simp add: stored2_def stored)
    with H2 have "\<not> resolves P b w (path r)" by simp
    moreover from a e n have "resolves P b w (path r)"
      by (auto simp: resolves_def is_file_def f1 split: if_splits)
    ultimately show False by simp
  qed
  have mt: "migration_throws P v (Some r2) cur cur = update_throws P (Some r) cur" for v
    using t2 R2 by (auto simp: migration_throws_def rename_throws_def update_throws_def raw_record_def)
  have mo: "path r2 \<noteq> cur \<Longrightarrow> migration_ops P v (Some r2) cur cur = migration_ops P w1 (Some r) cur cur" for v
    using R2 by (auto simp: migration_ops_def rename_throws_def)
  have st2: "path r2 \<noteq> cur \<Longrightarrow> stored2 = stored \<and> path r2 = path r"
    using R2 by (auto simp: stored2_def stored)
  have safe: "stored \<Longrightarrow> fetch_ops P b (path r) = [Fetch (path r)]"
    using H2 by (auto simp: resolves_def fetch_ops_def)
  have ext2: "ext = (case Some r2 of None \<Rightarrow> [] | Some r \<Rightarrow> getResourceFileExtension P (type' r))"
    by (simp add: ext t2)
  have sp2: "path r2 = (case Some r2 of None \<Rightarrow> [] | Some r \<Rightarrow> path r)" by simp
  have stored2': "stored2 = (Some r2 \<noteq> None \<and> path r2 \<noteq> [] \<and>
                            (endsWith (path r2) (''.'' @ ext) \<or> endsWith (path r2) ''.json''))"
    by (simp add: stored2_def)
  have cur2: "cur = join P b (case Some r2 of
                                None \<Rightarrow> rid
                              | Some r \<Rightarrow> if ext \<noteq> [] then getResourceFileName P r @ ''.'' @ ext
                                          else rid)"
    by (simp add: cur n2)
  note s2 = fetchResourceFile_spec [where resource = "Some r2" and w = w1,
      OF b ext2 sp2 stored2' cur2 leg refl]
  have res2: "fst (fetchResourceFile P rid (Some r2) w1) =
           (if path r2 \<noteq> cur \<and> update_throws P (Some r) cur
            then \<lparr>response = text_response ''Not Found'' 404, filePath = leg, base = b\<rparr>
            else answer P b w1 cur)"
  proof (cases "stored2 \<and> resolves P b w1 (path r2)")
    case True
    then have p: "path r2 = cur" by (rule only)
    from True have "stored2 \<and> resolves P b w1 cur" by (simp add: p)
    then show ?thesis
      using s2 [THEN conjunct1] by (simp add: p)
  next
    case False
    then show ?thesis
      using s2 [THEN conjunct1] rc(1) by (simp add: mt)
  qed
  have ops2: "ops w2 = ops w1 @
           (if path r2 = cur then [Fetch cur]
            else (if stored then [Fetch (path r)] else []) @ [Fetch cur] @
                 migration_ops P w1 (Some r) cur cur)"
  proof (cases "path r2 = cur")
    case True
    have fo: "fetch_ops P b cur = [Fetch cur]" using sc by (simp add: fetch_ops_def)
    show ?thesis
      using s2 [THEN conjunct2, THEN conjunct1] rc(1)
      unfolding w2 [symmetric]
      by (cases stored2) (simp_all add: True fo)
  next
    case False
    then have n: "\<not> (stored2 \<and> resolves P b w1 (path r2))" using only by blast
    have fo: "fetch_ops P b cur = [Fetch cur]" using sc by (simp add: fetch_ops_def)
    have e1: "stored2 = stored" and e2: "path r2 = path r" using st2 [OF False] by simp_all
    have pc: "path r \<noteq> cur" using False e2 by simp
    have n': "\<not> (stored \<and> resolves P b w1 (path r))" using n e1 e2 by simp
    show ?thesis
      using s2 [THEN conjunct2, THEN conjunct1] rc(1) n' pc
      unfolding w2 [symmetric] e1 e2
      by (cases stored) (simp_all add: fo safe mo [OF False])
  qed
  have f2: "files w2 = files w1"
    using s2 [THEN conjunct2, THEN conjunct2] rc(1)
    unfolding w2 [symmetric]
    by simp
  have r2: "renames w2 = renames w1"
    by (simp add: renames_def ops2 filter_rename_migration_ops)
  show ?thesis using res1 r1 f1 r2 f2 ops2 res2 a1 by simp
qed

theorem migration_once_witness:
  "renames (snd (fetchResourceFile test_platform ''1'' (Some image_record) legacy_world)) =
     [Rename ''/u/sffs_backend/resources/1'' ''/u/sffs_backend/resources/1.png''] \<and>
   renames (snd (fetchResourceFile test_platform ''1''
                   (Some (image_record\<lparr>path := ''/u/sffs_backend/resources/1.png''\<rparr>))
                   (snd (fetchResourceFile test_platform ''1'' (Some image_record) legacy_world)))) =
     [Rename ''/u/sffs_backend/resources/1'' ''/u/sffs_backend/resources/1.png''] \<and>
   ops (snd (fetchResourceFile test_platform ''1''
                   (Some (image_record\<lparr>path := ''/u/sffs_backend/resources/1.png''\<rparr>))
                   (snd (fetchResourceFile test_platform ''1'' (Some image_record) legacy_world)))) =
     ops (snd (fetchResourceFile test_platform ''1'' (Some image_record) legacy_world)) @
     [Fetch ''/u/sffs_backend/resources/1.png''] \<and>
   fst (fetchResourceFile test_platform ''1''
          (Some (image_record\<lparr>path := ''/u/sffs_backend/resources/1.png''\<rparr>))
          (snd (fetchResourceFile test_platform ''1'' (Some image_record) legacy_world))) =
     \<lparr>response = \<lparr>status = 200, body = ''x'', headers = []\<rparr>,
      filePath = ''/u/sffs_backend/resources/1.png'', base = ''/u/sffs_backend/resources''\<rparr>"
proof -
  let ?b = "join test_platform (join test_platform (userData test_platform) ''sffs_backend'')
              ''resources''"
  let ?ext = "getResourceFileExtension test_platform (type' image_record)"
  let ?stored = "path image_record \<noteq> [] \<and>
                 (endsWith (path image_record) (''.'' @ ?ext) \<or>
                  endsWith (path image_record) ''.json'')"
  let ?cur = "join test_platform ?b
                (if ?ext \<noteq> [] then getResourceFileName test_platform image_record @ ''.'' @ ?ext
                 else ''1'')"
  let ?leg = "join test_platform ?b ''1''"
  have bb: "?b = ''/u/sffs_backend/resources''" by code_simp
  have n: "?cur = ''/u/sffs_backend/resources/1.png''" by code_simp
  have l: "?leg = ''/u/sffs_backend/resources/1''" by code_simp
  have H1: "files legacy_world ?leg = Some (File ''x'')" by code_simp
  have H2: "\<not> (?stored \<and> resolves test_platform ?b legacy_world (path image_record))"
    by code_simp
  have H3: "\<not> resolves test_platform ?b legacy_world ?cur" by code_simp
  have H4: "\<not> renameFails test_platform ?leg ?cur" by (simp add: test_platform_def)
  have R2: "image_record\<lparr>path := ''/u/sffs_backend/resources/1.png''\<rparr> = image_record \<or>
            (image_record\<lparr>path := ''/u/sffs_backend/resources/1.png''\<rparr> =
               image_record\<lparr>path := ?cur\<rparr> \<and>
             getResourceFileName test_platform
               (image_record\<lparr>path := ''/u/sffs_backend/resources/1.png''\<rparr>) =
             getResourceFileName test_platform image_record)"
    unfolding n by (simp add: test_platform_def)
  have r0: "renames legacy_world = []" by code_simp
  have m: "mimeType test_platform ''/u/sffs_backend/resources/1.png'' ''x'' = None"
    by (simp add: test_platform_def)
  have u: "\<not> (path (image_record\<lparr>path := ''/u/sffs_backend/resources/1.png''\<rparr>) \<noteq>
               ''/u/sffs_backend/resources/1.png'' \<and>
             update_throws test_platform (Some image_record) ''/u/sffs_backend/resources/1.png'')"
    by simp
  have p: "path (image_record\<lparr>path := ''/u/sffs_backend/resources/1.png''\<rparr>) =
             ''/u/sffs_backend/resources/1.png''"
    by simp
  note t = migration_once [OF refl refl refl refl refl H1 H2 H3 H4 R2 refl refl,
      unfolded n l, unfolded bb]
  have c1: "renames (snd (fetchResourceFile test_platform ''1'' (Some image_record) legacy_world)) =
     [Rename ''/u/sffs_backend/resources/1'' ''/u/sffs_backend/resources/1.png'']"
    using t [THEN conjunct2, THEN conjunct1] by (simp only: r0 append_Nil)
  have c2: "renames (snd (fetchResourceFile test_platform ''1''
                   (Some (image_record\<lparr>path := ''/u/sffs_backend/resources/1.png''\<rparr>))
                   (snd (fetchResourceFile test_platform ''1'' (Some image_record) legacy_world)))) =
     [Rename ''/u/sffs_backend/resources/1'' ''/u/sffs_backend/resources/1.png'']"
    using t [THEN conjunct2, THEN conjunct2, THEN conjunct2, THEN conjunct1] c1
    by (simp only:)
  have c3: "ops (snd (fetchResourceFile test_platform ''1''
                   (Some (image_record\<lparr>path := ''/u/sffs_backend/resources/1.png''\<rparr>))
                   (snd (fetchResourceFile test_platform ''1'' (Some image_record) legacy_world)))) =
     ops (snd (fetchResourceFile test_platform ''1'' (Some image_record) legacy_world)) @
     [Fetch ''/u/sffs_backend/resources/1.png'']"
    using t [THEN conjunct2, THEN conjunct2, THEN conjunct2, THEN conjunct2, THEN conjunct2,
             THEN conjunct1]
    by (simp only: p if_True simp_thms)
  have c4: "fst (fetchResourceFile test_platform ''1''
          (Some (image_record\<lparr>path := ''/u/sffs_backend/resources/1.png''\<rparr>))
          (snd (fetchResourceFile test_platform ''1'' (Some image_record) legacy_world))) =
     \<lparr>response = \<lparr>status = 200, body = ''x'', headers = []\<rparr>,
      filePath = ''/u/sffs_backend/resources/1.png'', base = ''/u/sffs_backend/resources''\<rparr>"
    using t [THEN conjunct2, THEN conjunct2, THEN conjunct2, THEN conjunct2, THEN conjunct2,
             THEN conjunct2] u
    by (simp only: if_False m option.case)
  show ?thesis using c1 c2 c3 c4 by (simp only: simp_thms)
qed

text \<open>
  C6 as stated fails. The record of resource \<^verbatim>\<open>1.json\<close> stores the legacy path,
  which ends in \<^verbatim>\<open>.json\<close>, and the file lies there only: both calls find it at the
  stored path and no rename is performed. The record of resource \<^verbatim>\<open>1\<close> stores a path
  that is rejected as unsafe, the file lying at the legacy path only: both calls answer
  403 Forbidden and no rename is performed. And where the rename is refused, the two
  calls ask for it twice and the file stays at the legacy path.
\<close>

theorem migration_not_once_counterexample:
  "files json_world (join test_platform (resources_base test_platform) ''1.json'') =
     Some (File ''x'') \<and>
   files json_world (newFilePath_of test_platform ''1.json'' (Some json_record)) = None \<and>
   filePath (fst (fetchResourceFile test_platform ''1.json'' (Some json_record) json_world)) =
     ''/u/sffs_backend/resources/1.json'' \<and>
   status (response (fst (fetchResourceFile test_platform ''1.json'' (Some json_record)
                            json_world))) = 200 \<and>
   renames (snd (fetchResourceFile test_platform ''1.json'' (Some json_record)
              (snd (fetchResourceFile test_platform ''1.json'' (Some json_record) json_world)))) =
     [] \<and>
   files legacy_world (join guarding_platform (resources_base guarding_platform) ''1'') =
     Some (File ''x'') \<and>
   files legacy_world (newFilePath_of guarding_platform ''1'' (Some outside_record)) = None \<and>
   status (response (fst (fetchResourceFile guarding_platform ''1'' (Some outside_record)
                            legacy_world))) = 403 \<and>
   renames (snd (fetchResourceFile guarding_platform ''1'' (Some outside_record)
              (snd (fetchResourceFile guarding_platform ''1'' (Some outside_record)
                      legacy_world)))) = [] \<and>
   renames (snd (fetchResourceFile failing_rename_platform ''1'' (Some image_record)
              (snd (fetchResourceFile failing_rename_platform ''1'' (Some image_record)
                      legacy_world)))) =
     [Rename ''/u/sffs_backend/resources/1'' ''/u/sffs_backend/resources/1.png'',
      Rename ''/u/sffs_backend/resources/1'' ''/u/sffs_backend/resources/1.png''] \<and>
   files (snd (fetchResourceFile failing_rename_platform ''1'' (Some image_record)
              (snd (fetchResourceFile failing_rename_platform ''1'' (Some image_record)
                      legacy_world))))
     ''/u/sffs_backend/resources/1'' = Some (File ''x'')"
  by code_simp

subsection \<open>The cache file\<close>

text \<open>
  C7. For a request with a quality or a maximal dimension whose cache file exists (in an
  existing cache directory), the handler responds at once with the bytes of the cache
  file and the cache headers; the module state is unchanged (no promise, no entry in the
  map of handles, no worker started, nothing posted), and all it asked of the outside is
  two \<^verbatim>\<open>stat\<close> and the fetch of the cache file.
\<close>

theorem cache_short_circuit:
  "quality (extractImageOptions url) \<noteq> None \<or> maxDimension (extractImageOptions url) \<noteq> None \<Longrightarrow>
   files w dir \<noteq> None \<Longrightarrow>
   files w (generateCachedPath (join P) rid dir (extractImageOptions url)) = Some (File c) \<Longrightarrow>
   surfProtocolHandleImages P url rid img dir (w, s) =
     (Respond
        \<lparr>status = 200, body = c,
         headers =
           (case mimeType P (generateCachedPath (join P) rid dir (extractImageOptions url)) c of
              None \<Rightarrow> [] | Some t \<Rightarrow> [(''content-type'', t)]) @
           [(''Cache-Control'', ''max-age=172800''),
            (''ETag'', [CHR 0x22] @ rid @ [CHR 0x22]),
            (''Last-Modified'', now P)]\<rparr>,
      w\<lparr>ops := ops w @ [Stat dir,
                          Stat (generateCachedPath (join P) rid dir (extractImageOptions url)),
                          Fetch (generateCachedPath (join P) rid dir (extractImageOptions url))]\<rparr>,
      s)"
  by (auto simp: surfProtocolHandleImages_def createCacheDirIfNotExists_def stat_def
        fetch_with_headers_def net_fetch_def with_headers_def record_op_def Let_def)

theorem cache_short_circuit_witness:
  "quality (extractImageOptions ''surf://surf/resource/1?raw&quality=1'') = Some (Num 1) \<and>
   files cached_world ''/c'' = Some Dir \<and>
   generateCachedPath (join test_platform) ''1'' ''/c''
     (extractImageOptions ''surf://surf/resource/1?raw&quality=1'') = ''/c/1_quality-1'' \<and>
   files cached_world ''/c/1_quality-1'' = Some (File ''x'') \<and>
   snd (snd (surfProtocolHandleImages test_platform ''surf://surf/resource/1?raw&quality=1''
               ''1'' ''/r/1'' ''/c'' (cached_world, initial_state))) = initial_state \<and>
   fst (surfProtocolHandleImages test_platform ''surf://surf/resource/1?raw&quality=1''
               ''1'' ''/r/1'' ''/c'' (cached_world, initial_state)) =
     Respond \<lparr>status = 200, body = ''x'',
              headers = [(''Cache-Control'', ''max-age=172800''),
                         (''ETag'', [CHR 0x22] @ ''1'' @ [CHR 0x22]),
                         (''Last-Modified'', now test_platform)]\<rparr>"
proof -
  let ?url = "''surf://surf/resource/1?raw&quality=1''"
  have q: "quality (extractImageOptions ?url) = Some (Num 1)" by code_simp
  have g: "generateCachedPath (join test_platform) ''1'' ''/c'' (extractImageOptions ?url) =
             ''/c/1_quality-1''" by code_simp
  have d: "files cached_world ''/c'' = Some Dir"
    by (simp add: cached_world_def empty_world_def)
  have f: "files cached_world ''/c/1_quality-1'' = Some (File ''x'')"
    by (simp add: cached_world_def empty_world_def)
  have h1: "quality (extractImageOptions ?url) \<noteq> None \<or>
            maxDimension (extractImageOptions ?url) \<noteq> None" using q by simp
  have h2: "files cached_world ''/c'' \<noteq> None" using d by simp
  have h3: "files cached_world (generateCachedPath (join test_platform) ''1'' ''/c''
              (extractImageOptions ?url)) = Some (File ''x'')" using f g by simp
  have m: "mimeType test_platform ''/c/1_quality-1'' ''x'' = None"
    by (simp add: test_platform_def)
  show ?thesis
    using cache_short_circuit [OF h1 h2 h3, of "''/r/1''" initial_state] q g d f m
    by simp
qed

end
